theory Spec2Isabelle
  imports Complex_Main "HOL-Library.Sublist"
begin

section \<open>The JavaScript runtime as the pipeline sees it\<close>

text \<open>
  A JavaScript number is modelled by a rational: the schemas (\<open>z.number()\<close>) exclude
  \<open>NaN\<close>, and the rounding of doubles is not modelled. A string is a list of
  characters, each character standing for one code unit below 256.
  \<open>Number.prototype.toString\<close>, which the template literals apply to every
  interpolated number, belongs to the runtime: the functions below take it as the
  parameter \<open>S\<close>.
\<close>

type_synonym number = rat

text \<open>
  What a \<open>throw\<close> carries: \<open>new Error(message)\<close>, the \<open>ZodError\<close> of a failed
  \<open>parse\<close> with its list of issues (path of the field, issue code), or a value that is
  not an instance of \<open>Error\<close>.
\<close>

datatype zod_code = invalid_type | invalid_enum_value

datatype zod_issue = Issue (path: "string list") (code: zod_code)

datatype js_error = Error string | ZodError "zod_issue list" | Thrown

text \<open>
  The world outside a step: whether \<open>getAgent('tradingAgent')\<close> finds the agent, what
  the agent's \<open>stream\<close> does on its \<open>n\<close>-th call with a given prompt (it throws, or
  yields the chunks of \<open>textStream\<close>; a stream that throws after some chunks is a throw,
  since the accumulated text is lost with the exception), the prompts the agent has
  received so far, and the clock read by \<open>Date.now()\<close> (the \<open>k\<close>-th reading is
  \<open>clock k\<close>). Console output is not part of the model.
\<close>

record world =
  registered :: bool
  reply :: "nat \<Rightarrow> string \<Rightarrow> js_error + string list"
  calls :: "string list"
  clock :: "nat \<Rightarrow> number"
  ticks :: nat

definition Date_now :: "world \<Rightarrow> number \<times> world" where
  "Date_now w = (clock w (ticks w), w\<lparr>ticks := Suc (ticks w)\<rparr>)"

definition agent_stream :: "string \<Rightarrow> world \<Rightarrow> (js_error + string list) \<times> world" where
  "agent_stream prompt w =
     (reply w (length (calls w)) prompt, w\<lparr>calls := calls w @ [prompt]\<rparr>)"

text \<open>
  \<open>let text = ''; for await (const chunk of response.textStream) text += chunk;\<close>
\<close>

definition collect :: "string list \<Rightarrow> string" where
  "collect chunks = foldl (\<lambda>text chunk. text @ chunk) [] chunks"

text \<open>A template literal that spans several source lines: the lines joined by line feeds.\<close>

definition nl :: string where
  "nl = [CHR 0x0A]"

fun join_lines :: "string list \<Rightarrow> string" where
  "join_lines [] = []"
| "join_lines [l] = l"
| "join_lines (l # ls) = l @ nl @ join_lines ls"

text \<open>The operator \<open>||\<close> on an optional string and on an optional number, with a string
  as its right operand, inside a template literal.\<close>

definition str_or :: "string option \<Rightarrow> string \<Rightarrow> string" where
  "str_or v d = (case v of None \<Rightarrow> d | Some s \<Rightarrow> if s = [] then d else s)"

definition num_or :: "(number \<Rightarrow> string) \<Rightarrow> number option \<Rightarrow> string \<Rightarrow> string" where
  "num_or S v d = (case v of None \<Rightarrow> d | Some n \<Rightarrow> if n = 0 then d else S n)"

section \<open>The workflow: \<open>trading-workflow.ts\<close>\<close>

text \<open>\<open>tradingViewAlertSchema\<close>: an optional field that is absent is \<open>None\<close>.\<close>

record alert =
  symbol :: string
  price :: number
  action :: string
  strategy :: "string option"
  timeframe :: "string option"
  exchange :: "string option"
  timestamp :: number
  message :: "string option"
  volume :: "number option"
  rsi :: "number option"
  macd :: "string option"

text \<open>
  \<open>tradingAnalysisSchema\<close>, with the fields the steps read and write. The fields
  \<open>symbol\<close> and \<open>timeframe\<close> carry the suffix \<open>_an\<close> here. \<open>recommendedAction\<close> and
  \<open>riskLevel\<close> are the strings the step holds at run time.
\<close>

record analysis =
  symbol_an :: string
  currentPrice :: number
  recommendedAction :: string
  confidence :: number
  reasoning :: string
  riskLevel :: string
  timeframe_an :: string

text \<open>The output of \<open>executeTrade\<close>; \<open>message\<close> and \<open>timestamp\<close> carry the suffix \<open>_ex\<close>.\<close>

record execution =
  executed :: bool
  tradeId :: "string option"
  message_ex :: string
  timestamp_ex :: number

subsection \<open>Regular expressions of the extractor\<close>

text \<open>
  The three patterns of \<open>analyzeAlert\<close> use literal text, the classes \<open>[:\s]\<close> and
  \<open>\d\<close>, the quantifiers \<open>*\<close> and \<open>+\<close>, one capture group and the flag \<open>i\<close>. On code
  units below 256, \<open>\s\<close> is tab, line feed, vertical tab, form feed, carriage return,
  space and no-break space. Under the flag \<open>i\<close> two code units match when their
  canonical forms agree; for the ASCII text of these patterns that is the upper case
  of the 26 letters.
\<close>

definition is_digit :: "char \<Rightarrow> bool" where
  "is_digit c = (c \<in> set ''0123456789'')"

definition is_space :: "char \<Rightarrow> bool" where
  "is_space c =
     (c \<in> set [CHR 0x09, CHR 0x0A, CHR 0x0B, CHR 0x0C, CHR 0x0D, CHR 0x20, CHR 0xA0])"

definition colon_or_space :: "char \<Rightarrow> bool" where
  "colon_or_space c = (c = CHR '':'' \<or> is_space c)"

definition Canonicalize :: "char \<Rightarrow> char" where
  "Canonicalize c =
     (case map_of (zip ''abcdefghijklmnopqrstuvwxyz'' ''ABCDEFGHIJKLMNOPQRSTUVWXYZ'') c of
        Some u \<Rightarrow> u | None \<Rightarrow> c)"

definition ci_eq :: "string \<Rightarrow> string \<Rightarrow> bool" where
  "ci_eq u w = (map Canonicalize u = map Canonicalize w)"

text \<open>
  A pattern is a sequence of nodes: literal text outside the group (\<open>Lit\<close>), one
  character of a class (\<open>One\<close>), a greedy starred class (\<open>Star\<close>), and the capture group
  made of literal alternatives (\<open>Alt\<close>). The flag of \<open>One\<close> and \<open>Star\<close> tells whether the
  node lies inside the capture group, so that \<open>(\d+)\<close> is \<open>One True\<close> followed by
  \<open>Star True\<close>.
\<close>

datatype node =
    Lit string
  | One bool "char \<Rightarrow> bool"
  | Star bool "char \<Rightarrow> bool"
  | Alt "string list"

fun weight :: "node \<Rightarrow> nat" where
  "weight (Alt ws) = Suc (length ws)"
| "weight _ = 1"

text \<open>
  The backtracking matcher at one start position: \<open>match_at ns s cap\<close> matches the nodes \<open>ns\<close>
  against a prefix of \<open>s\<close> and returns the text of the capture group, \<open>cap\<close> being what
  the group has taken so far. A starred class first tries one more character and falls
  back to the rest of the pattern; alternatives are tried from left to right.
\<close>

function match_at :: "node list \<Rightarrow> string \<Rightarrow> string \<Rightarrow> string option" where
  "match_at [] s cap = Some cap"
| "match_at (Lit w # ns) s cap =
     (if ci_eq (take (length w) s) w then match_at ns (drop (length w) s) cap else None)"
| "match_at (One g p # ns) [] cap = None"
| "match_at (One g p # ns) (c # s) cap =
     (if p c then match_at ns s (if g then cap @ [c] else cap) else None)"
| "match_at (Star g p # ns) [] cap = match_at ns [] cap"
| "match_at (Star g p # ns) (c # s) cap =
     (if p c then
        (case match_at (Star g p # ns) s (if g then cap @ [c] else cap) of
           Some r \<Rightarrow> Some r
         | None \<Rightarrow> match_at ns (c # s) cap)
      else match_at ns (c # s) cap)"
| "match_at (Alt [] # ns) s cap = None"
| "match_at (Alt (w # ws) # ns) s cap =
     (if ci_eq (take (length w) s) w then
        (case match_at ns (drop (length w) s) (cap @ take (length w) s) of
           Some r \<Rightarrow> Some r
         | None \<Rightarrow> match_at (Alt ws # ns) s cap)
      else match_at (Alt ws # ns) s cap)"
  by pat_completeness auto
termination
  by (relation "measures [\<lambda>(ns, s, cap). sum_list (map weight ns),
                          \<lambda>(ns, s, cap). length s]") auto

text \<open>
  \<open>text.match(re)\<close> for a pattern without the flag \<open>g\<close>: the match at the leftmost
  start position, of which the caller reads group 1; \<open>None\<close> is \<open>null\<close>.
\<close>

fun search :: "node list \<Rightarrow> string \<Rightarrow> string option" where
  "search ns [] = match_at ns [] []"
| "search ns (c # s) = (case match_at ns (c # s) [] of Some r \<Rightarrow> Some r | None \<Rightarrow> search ns s)"

text \<open>\<open>/confidence[:\s]*(\d+)%/i\<close>\<close>

definition confidence_re :: "node list" where
  "confidence_re =
     [Lit ''confidence'', Star False colon_or_space, One True is_digit, Star True is_digit,
      Lit ''%'']"

text \<open>\<open>/recommended action[:\s]*(buy|sell|hold)/i\<close>\<close>

definition action_re :: "node list" where
  "action_re =
     [Lit ''recommended action'', Star False colon_or_space, Alt [''buy'', ''sell'', ''hold'']]"

text \<open>\<open>/risk level[:\s]*(low|medium|high)/i\<close>\<close>

definition risk_re :: "node list" where
  "risk_re =
     [Lit ''risk level'', Star False colon_or_space, Alt [''low'', ''medium'', ''high'']]"

text \<open>
  \<open>parseInt\<close> is applied to the text captured by \<open>(\d+)\<close>, a non-empty run of ASCII
  digits: it returns the decimal value of the leading digits. The branches of \<open>parseInt\<close>
  for white space, a sign, a radix prefix and \<open>NaN\<close> cannot be reached from such a text
  and are not modelled.
\<close>

definition digit_val :: "char \<Rightarrow> nat" where
  "digit_val c = of_char c - 48"

definition parseInt :: "string \<Rightarrow> number" where
  "parseInt s = of_nat (foldl (\<lambda>n c. 10 * n + digit_val c) 0 (takeWhile is_digit s))"

text \<open>The language of a pattern, independent of the matcher: the texts a node stands for,
  the texts a sequence of nodes stands for, and the presence of such a text in a string.\<close>

fun node_lang :: "node \<Rightarrow> string \<Rightarrow> bool" where
  "node_lang (Lit w) u = ci_eq u w"
| "node_lang (One g p) u = (\<exists>c. u = [c] \<and> p c)"
| "node_lang (Star g p) u = list_all p u"
| "node_lang (Alt ws) u = (\<exists>w \<in> set ws. ci_eq u w)"

fun accepts :: "node list \<Rightarrow> string \<Rightarrow> bool" where
  "accepts [] u = (u = [])"
| "accepts (n # ns) u = (\<exists>u1 u2. u = u1 @ u2 \<and> node_lang n u1 \<and> accepts ns u2)"

definition contains_match :: "node list \<Rightarrow> string \<Rightarrow> bool" where
  "contains_match ns s = (\<exists>pre u post. s = pre @ u @ post \<and> accepts ns u)"

definition accepts_prefix :: "node list \<Rightarrow> string \<Rightarrow> bool" where
  "accepts_prefix ns s = (\<exists>u v. s = u @ v \<and> accepts ns u)"

text \<open>
  The three markers written out: the word, any number of colons and white space, and the
  value (one or more digits followed by a percent sign, or one of three words), letters
  in either case. A text has a marker when some part of it is one.
\<close>

definition confidence_marker :: "string \<Rightarrow> bool" where
  "confidence_marker u =
     (\<exists>w seps ds. u = w @ seps @ ds @ ''%'' \<and> ci_eq w ''confidence'' \<and>
        list_all colon_or_space seps \<and> ds \<noteq> [] \<and> list_all is_digit ds)"

definition action_marker :: "string \<Rightarrow> bool" where
  "action_marker u =
     (\<exists>w seps k. u = w @ seps @ k \<and> ci_eq w ''recommended action'' \<and>
        list_all colon_or_space seps \<and>
        (ci_eq k ''buy'' \<or> ci_eq k ''sell'' \<or> ci_eq k ''hold''))"

definition risk_marker :: "string \<Rightarrow> bool" where
  "risk_marker u =
     (\<exists>w seps k. u = w @ seps @ k \<and> ci_eq w ''risk level'' \<and>
        list_all colon_or_space seps \<and>
        (ci_eq k ''low'' \<or> ci_eq k ''medium'' \<or> ci_eq k ''high''))"

definition has_marker :: "(string \<Rightarrow> bool) \<Rightarrow> string \<Rightarrow> bool" where
  "has_marker M s = (\<exists>pre u post. s = pre @ u @ post \<and> M u)"

subsection \<open>Step 1: \<open>analyzeAlert\<close>\<close>

text \<open>
  The prompt of \<open>analyzeAlert\<close>, as the lines of its template literal. The webhook
  handler builds its prompt from the same text; the two share the frame around the ten
  lines of alert data.
\<close>

definition promptFrame :: "string list \<Rightarrow> string" where
  "promptFrame alertLines = join_lines
     ([''Analyze this TradingView alert and provide a detailed trading recommendation:'',
       '''',
       ''ALERT DATA:''] @
      alertLines @
      ['''',
       ''Please provide a comprehensive analysis including:'',
       ''1. Current market sentiment for this symbol'',
       ''2. Technical analysis based on the alert data'',
       ''3. Risk assessment'',
       ''4. Recommended action (buy/sell/hold) with confidence level'',
       ''5. Target price and stop loss if applicable'',
       ''6. Position sizing recommendation'',
       ''7. Reasoning for the recommendation'',
       '''',
       ''Format your response as a structured analysis that can be used for automated trading decisions.''])"

definition alertLines :: "(number \<Rightarrow> string) \<Rightarrow> alert \<Rightarrow> string list" where
  "alertLines S inputData =
     [''- Symbol: '' @ symbol inputData,
      ''- Price: $'' @ S (price inputData),
      ''- Action: '' @ action inputData,
      ''- Strategy: '' @ str_or (strategy inputData) ''Not specified'',
      ''- Timeframe: '' @ str_or (timeframe inputData) ''Not specified'',
      ''- Exchange: '' @ str_or (exchange inputData) ''Not specified'',
      ''- Volume: '' @ num_or S (volume inputData) ''Not available'',
      ''- RSI: '' @ num_or S (rsi inputData) ''Not available'',
      ''- MACD: '' @ str_or (macd inputData) ''Not available'',
      ''- Message: '' @ str_or (message inputData) ''No additional message'']"

definition analysisPrompt :: "(number \<Rightarrow> string) \<Rightarrow> alert \<Rightarrow> string" where
  "analysisPrompt S inputData = promptFrame (alertLines S inputData)"

text \<open>The labels that open the ten lines of alert data.\<close>

definition promptLabels :: "string list" where
  "promptLabels =
     [''- Symbol: '', ''- Price: $'', ''- Action: '', ''- Strategy: '', ''- Timeframe: '',
      ''- Exchange: '', ''- Volume: '', ''- RSI: '', ''- MACD: '', ''- Message: '']"

text \<open>The three extractions from the concatenated response.\<close>

definition extractConfidence :: "string \<Rightarrow> number" where
  "extractConfidence analysisText =
     (case search confidence_re analysisText of Some g \<Rightarrow> parseInt g | None \<Rightarrow> 50)"

definition extractAction :: "string \<Rightarrow> string" where
  "extractAction analysisText =
     (case search action_re analysisText of Some g \<Rightarrow> g | None \<Rightarrow> ''hold'')"

definition extractRisk :: "string \<Rightarrow> string" where
  "extractRisk analysisText =
     (case search risk_re analysisText of Some g \<Rightarrow> g | None \<Rightarrow> ''medium'')"

definition analyzeAlert ::
  "(number \<Rightarrow> string) \<Rightarrow> alert option \<Rightarrow> world \<Rightarrow> (js_error + analysis) \<times> world" where
  "analyzeAlert S input w =
     (case input of
        None \<Rightarrow> (Inl (Error ''Alert data not found''), w)
      | Some inputData \<Rightarrow>
          if \<not> registered w then (Inl (Error ''Trading agent not found''), w)
          else
            (case agent_stream (analysisPrompt S inputData) w of
               (Inl e, w1) \<Rightarrow> (Inl e, w1)
             | (Inr chunks, w1) \<Rightarrow>
                 (let analysisText = collect chunks
                  in (Inr \<lparr>symbol_an = symbol inputData,
                           currentPrice = price inputData,
                           recommendedAction = extractAction analysisText,
                           confidence = extractConfidence analysisText,
                           reasoning = analysisText,
                           riskLevel = extractRisk analysisText,
                           timeframe_an = str_or (timeframe inputData) ''1h''\<rparr>, w1))))"

subsection \<open>Step 2: \<open>executeTrade\<close>\<close>

definition executionPrompt :: "(number \<Rightarrow> string) \<Rightarrow> analysis \<Rightarrow> string" where
  "executionPrompt S inputData = join_lines
     [''Execute a '' @ recommendedAction inputData @ '' trade for '' @ symbol_an inputData @ '':'',
      '''',
      ''    Analysis Summary:'',
      ''    - Symbol: '' @ symbol_an inputData,
      ''    - Current Price: $'' @ S (currentPrice inputData),
      ''    - Action: '' @ recommendedAction inputData,
      ''    - Confidence: '' @ S (confidence inputData) @ ''%'',
      ''    - Risk Level: '' @ riskLevel inputData,
      ''    - Reasoning: '' @ take 200 (reasoning inputData) @ ''...'',
      '''',
      ''    Please execute this trade using the available trading tools.'']"

definition executeTrade ::
  "(number \<Rightarrow> string) \<Rightarrow> analysis option \<Rightarrow> world \<Rightarrow> (js_error + execution) \<times> world" where
  "executeTrade S input w =
     (case input of
        None \<Rightarrow> (Inl (Error ''Analysis data not found''), w)
      | Some inputData \<Rightarrow>
          if \<not> registered w then (Inl (Error ''Trading agent not found''), w)
          else if confidence inputData < 70 \<or> recommendedAction inputData = ''hold'' then
            (let (t, w1) = Date_now w in
               (Inr \<lparr>executed = False, tradeId = None,
                     message_ex = ''Trade not executed: '' @
                       (if recommendedAction inputData = ''hold''
                        then ''Hold recommendation'' else ''Low confidence''),
                     timestamp_ex = t\<rparr>, w1))
          else
            (case agent_stream (executionPrompt S inputData) w of
               (Inl e, w1) \<Rightarrow> (Inl e, w1)
             | (Inr chunks, w1) \<Rightarrow>
                 (let executionResult = collect chunks;
                      (t1, w2) = Date_now w1;
                      (t2, w3) = Date_now w2
                  in (Inr \<lparr>executed = True, tradeId = Some (''trade_'' @ S t1),
                           message_ex = ''Trade executed: '' @ recommendedAction inputData @
                             '' '' @ symbol_an inputData @ '' at $'' @
                             S (currentPrice inputData),
                           timestamp_ex = t2\<rparr>, w3))))"

section \<open>The webhook handler\<close>

text \<open>
  The body of a request after \<open>express.json()\<close>: a JSON value. An object is the list of
  its properties; \<open>map_of\<close> reads a property.
\<close>

datatype json =
    JNull
  | JBool bool
  | JNumber number
  | JString string
  | JArray "json list"
  | JObject "(string \<times> json) list"

type_synonym jsval = "json option"

text \<open>
  A value held by a property or a variable is a JSON value or \<open>undefined\<close>, which is
  \<open>None\<close>. \<open>truthy\<close> is the test that \<open>||\<close> applies to its left operand: \<open>undefined\<close>,
  \<open>null\<close>, \<open>false\<close>, \<open>0\<close> and the empty string fail it.
\<close>

definition truthy :: "jsval \<Rightarrow> bool" where
  "truthy v =
     (case v of
        None \<Rightarrow> False
      | Some JNull \<Rightarrow> False
      | Some (JBool b) \<Rightarrow> b
      | Some (JNumber n) \<Rightarrow> n \<noteq> 0
      | Some (JString s) \<Rightarrow> s \<noteq> []
      | Some (JArray xs) \<Rightarrow> True
      | Some (JObject props) \<Rightarrow> True)"

definition or_js :: "jsval \<Rightarrow> jsval \<Rightarrow> jsval" where
  "or_js a b = (if truthy a then a else b)"

text \<open>
  The operator \<open>??\<close>, in which the specification states the normalizer: it falls
  through on \<open>undefined\<close> and \<open>null\<close> only. The source writes \<open>||\<close> throughout.
\<close>

definition coalesce :: "jsval \<Rightarrow> jsval \<Rightarrow> jsval" where
  "coalesce a b = (if a = None \<or> a = Some JNull then b else a)"

text \<open>
  The string a template literal makes of a value: \<open>toString\<close> on JSON values (an array is
  joined with commas, \<open>null\<close> elements giving the empty string), \<open>interpolate\<close> on values
  that may be \<open>undefined\<close>.
\<close>

fun toString :: "(number \<Rightarrow> string) \<Rightarrow> json \<Rightarrow> string"
  and join :: "(number \<Rightarrow> string) \<Rightarrow> json list \<Rightarrow> string" where
  "toString S JNull = ''null''"
| "toString S (JBool b) = (if b then ''true'' else ''false'')"
| "toString S (JNumber n) = S n"
| "toString S (JString s) = s"
| "toString S (JArray xs) = join S xs"
| "toString S (JObject props) = ''[object Object]''"
| "join S [] = []"
| "join S (x # xs) =
     (if x = JNull then [] else toString S x) @ (if xs = [] then [] else '','' @ join S xs)"

definition interpolate :: "(number \<Rightarrow> string) \<Rightarrow> jsval \<Rightarrow> string" where
  "interpolate S v = (case v of None \<Rightarrow> ''undefined'' | Some j \<Rightarrow> toString S j)"

text \<open>
  The schemas of \<open>zod\<close> that the handler uses: \<open>z.string()\<close>, \<open>z.number()\<close>,
  \<open>z.enum([...])\<close> and \<open>.optional()\<close>. \<open>zod_check\<close> returns the code of the issue that a
  value raises, \<open>None\<close> when the value is accepted: a value of another type is
  \<open>invalid_type\<close> (so is a missing required value), a string outside an enum is
  \<open>invalid_enum_value\<close>, and an optional schema accepts \<open>undefined\<close>.
\<close>

datatype zod_type = ZodString | ZodNumber | ZodEnum "string list" | ZodOptional zod_type

fun zod_check :: "zod_type \<Rightarrow> jsval \<Rightarrow> zod_code option" where
  "zod_check ZodString v = (case v of Some (JString s) \<Rightarrow> None | _ \<Rightarrow> Some invalid_type)"
| "zod_check ZodNumber v = (case v of Some (JNumber n) \<Rightarrow> None | _ \<Rightarrow> Some invalid_type)"
| "zod_check (ZodEnum values) v =
     (case v of
        Some (JString s) \<Rightarrow> if s \<in> set values then None else Some invalid_enum_value
      | _ \<Rightarrow> Some invalid_type)"
| "zod_check (ZodOptional t) v = (case v of None \<Rightarrow> None | _ \<Rightarrow> zod_check t v)"

text \<open>
  \<open>z.object(shape).parse(data)\<close>: a value that is not an object is rejected with one
  issue at the empty path; otherwise every key of the shape is checked, the issues are
  collected in the order of the shape, and \<open>parse\<close> throws a \<open>ZodError\<close> with them when
  there is one. Without issues it returns the properties of the shape that are present;
  other properties are stripped.
\<close>

definition field_issues :: "(string \<times> json) list \<Rightarrow> string \<times> zod_type \<Rightarrow> zod_issue list" where
  "field_issues props = (\<lambda>(key, t).
     case zod_check t (map_of props key) of None \<Rightarrow> [] | Some c \<Rightarrow> [Issue [key] c])"

definition field_value :: "(string \<times> json) list \<Rightarrow> string \<times> zod_type \<Rightarrow> (string \<times> json) list" where
  "field_value props = (\<lambda>(key, t).
     case map_of props key of None \<Rightarrow> [] | Some v \<Rightarrow> [(key, v)])"

definition zod_parse :: "(string \<times> zod_type) list \<Rightarrow> json \<Rightarrow> js_error + (string \<times> json) list" where
  "zod_parse shape data =
     (case data of
        JObject props \<Rightarrow>
          (let issues = concat (map (field_issues props) shape)
           in if issues = [] then Inr (concat (map (field_value props) shape))
              else Inl (ZodError issues))
      | _ \<Rightarrow> Inl (ZodError [Issue [] invalid_type]))"

text \<open>
  \<open>tradingViewWebhookSchema\<close> of the webhook handler.
\<close>

definition tradingViewWebhookSchema :: "(string \<times> zod_type) list" where
  "tradingViewWebhookSchema =
     [(''symbol'', ZodString),
      (''price'', ZodNumber),
      (''action'', ZodEnum [''buy'', ''sell'', ''alert'']),
      (''strategy'', ZodOptional ZodString),
      (''timeframe'', ZodOptional ZodString),
      (''exchange'', ZodOptional ZodString),
      (''timestamp'', ZodOptional ZodNumber),
      (''message'', ZodOptional ZodString),
      (''volume'', ZodOptional ZodNumber),
      (''rsi'', ZodOptional ZodNumber),
      (''macd'', ZodOptional ZodString),
      (''alert_name'', ZodOptional ZodString),
      (''chart_time'', ZodOptional ZodNumber),
      (''bar_index'', ZodOptional ZodNumber),
      (''bar_time'', ZodOptional ZodNumber),
      (''close'', ZodOptional ZodNumber),
      (''high'', ZodOptional ZodNumber),
      (''low'', ZodOptional ZodNumber),
      (''open'', ZodOptional ZodNumber),
      (''volume_24h'', ZodOptional ZodNumber)]"

text \<open>
  Reading a property of an object whose properties may hold \<open>undefined\<close>.
\<close>

definition getProp :: "(string \<times> jsval) list \<Rightarrow> string \<Rightarrow> jsval" where
  "getProp obj key = (case map_of obj key of None \<Rightarrow> None | Some v \<Rightarrow> v)"

text \<open>
  The object literal \<open>alertData\<close> of the handler. \<open>Date.now()\<close> is evaluated only when
  \<open>timestamp\<close> and \<open>bar_time\<close> are both falsy.
\<close>

definition alertData :: "(string \<times> json) list \<Rightarrow> world \<Rightarrow> (string \<times> jsval) list \<times> world" where
  "alertData validatedData w =
     (let v = map_of validatedData;
          (ts, w1) =
            (if truthy (v ''timestamp'') then (v ''timestamp'', w)
             else if truthy (v ''bar_time'') then (v ''bar_time'', w)
             else (let (t, w') = Date_now w in (Some (JNumber t), w')))
      in ([(''symbol'', v ''symbol''),
           (''price'', or_js (v ''price'') (or_js (v ''close'') (Some (JNumber 0)))),
           (''action'', v ''action''),
           (''strategy'', or_js (v ''strategy'') (v ''alert_name'')),
           (''timeframe'', v ''timeframe''),
           (''exchange'', v ''exchange''),
           (''timestamp'', ts),
           (''message'', v ''message''),
           (''volume'', or_js (v ''volume'') (v ''volume_24h'')),
           (''rsi'', v ''rsi''),
           (''macd'', v ''macd'')], w1))"

text \<open>
  The prompt of the handler: the template of \<open>analyzeAlert\<close>, filled from \<open>alertData\<close>.
\<close>

definition webhookPrompt :: "(number \<Rightarrow> string) \<Rightarrow> (string \<times> jsval) list \<Rightarrow> string" where
  "webhookPrompt S a = promptFrame
     [''- Symbol: '' @ interpolate S (getProp a ''symbol''),
      ''- Price: $'' @ interpolate S (getProp a ''price''),
      ''- Action: '' @ interpolate S (getProp a ''action''),
      ''- Strategy: '' @ interpolate S (or_js (getProp a ''strategy'') (Some (JString ''Not specified''))),
      ''- Timeframe: '' @ interpolate S (or_js (getProp a ''timeframe'') (Some (JString ''Not specified''))),
      ''- Exchange: '' @ interpolate S (or_js (getProp a ''exchange'') (Some (JString ''Not specified''))),
      ''- Volume: '' @ interpolate S (or_js (getProp a ''volume'') (Some (JString ''Not available''))),
      ''- RSI: '' @ interpolate S (or_js (getProp a ''rsi'') (Some (JString ''Not available''))),
      ''- MACD: '' @ interpolate S (or_js (getProp a ''macd'') (Some (JString ''Not available''))),
      ''- Message: '' @ interpolate S (or_js (getProp a ''message'') (Some (JString ''No additional message'')))]"

text \<open>
  The response: the status and the fields of the JSON body (\<open>message\<close>, \<open>analysis\<close> and
  \<open>error\<close> carry the suffix \<open>_res\<close>).
\<close>

record response =
  status :: nat
  success :: bool
  message_res :: string
  logId :: "string option"
  analysis_res :: "string option"
  errors :: "zod_issue list option"
  error_res :: "string option"

text \<open>
  The \<open>catch\<close> block of the route: 400 with the issues for a \<open>ZodError\<close>, 500 otherwise.
\<close>

definition on_error :: "js_error \<Rightarrow> response" where
  "on_error e =
     (case e of
        ZodError issues \<Rightarrow>
          \<lparr>status = 400, success = False, message_res = ''Invalid webhook data'',
           logId = None, analysis_res = None, errors = Some issues, error_res = None\<rparr>
      | Error msg \<Rightarrow>
          \<lparr>status = 500, success = False, message_res = ''Internal server error'',
           logId = None, analysis_res = None, errors = None, error_res = Some msg\<rparr>
      | Thrown \<Rightarrow>
          \<lparr>status = 500, success = False, message_res = ''Internal server error'',
           logId = None, analysis_res = None, errors = None,
           error_res = Some ''Unknown error''\<rparr>)"

text \<open>
  \<open>app.post('/webhook/tradingview', ...)\<close>. The clock is read for the identifier of the
  log entry and again by \<open>new Date()\<close>.
\<close>

definition webhook_tradingview :: "(number \<Rightarrow> string) \<Rightarrow> json \<Rightarrow> world \<Rightarrow> response \<times> world" where
  "webhook_tradingview S body w =
     (case zod_parse tradingViewWebhookSchema body of
        Inl e \<Rightarrow> (on_error e, w)
      | Inr validatedData \<Rightarrow>
          (let (a, w1) = alertData validatedData w
           in if \<not> registered w1 then (on_error (Error ''Trading agent not found''), w1)
              else
                (case agent_stream (webhookPrompt S a) w1 of
                   (Inl e, w2) \<Rightarrow> (on_error e, w2)
                 | (Inr chunks, w2) \<Rightarrow>
                     (let analysisText = collect chunks;
                          (t, w3) = Date_now w2;
                          (now, w4) = Date_now w3
                      in (\<lparr>status = 200, success = True,
                           message_res = ''TradingView alert processed successfully'',
                           logId = Some (''log_'' @ S t), analysis_res = Some analysisText,
                           errors = None, error_res = None\<rparr>, w4)))))"

section \<open>Concrete inputs\<close>

text \<open>
  \<open>Number.prototype.toString\<close> on the integers of absolute value below \<open>10^21\<close> is the
  decimal numeral with a minus sign for the negative ones; the concrete runs below use
  integers only and pass this function for \<open>S\<close>.
\<close>

fun digits :: "nat \<Rightarrow> string" where
  "digits n = (if n < 10 then [''0123456789'' ! n]
               else digits (n div 10) @ [''0123456789'' ! (n mod 10)])"

definition toString_int :: "number \<Rightarrow> string" where
  "toString_int q = (if q < 0 then ''-'' else []) @ digits (nat \<lfloor>\<bar>q\<bar>\<rfloor>)"

definition sample_world :: world where
  "sample_world = \<lparr>registered = True, reply = (\<lambda>n p. Inr [''Order '', ''placed'']),
      calls = [], clock = (\<lambda>k. 1700000000000 + of_nat k), ticks = 0\<rparr>"

definition failing_world :: world where
  "failing_world = \<lparr>registered = True, reply = (\<lambda>n p. Inl (Error ''429 quota exceeded'')),
      calls = [], clock = (\<lambda>k. 1700000000000 + of_nat k), ticks = 0\<rparr>"

definition sample_analysis :: "number \<Rightarrow> string \<Rightarrow> analysis" where
  "sample_analysis c act =
     \<lparr>symbol_an = ''BTCUSDT'', currentPrice = 45000, recommendedAction = act,
      confidence = c, reasoning = ''RSI below 30'', riskLevel = ''low'',
      timeframe_an = ''1h''\<rparr>"

text \<open>A world whose agent answers every prompt with the given chunks.\<close>

definition world_replying :: "string list \<Rightarrow> world" where
  "world_replying chunks = \<lparr>registered = True, reply = (\<lambda>n p. Inr chunks),
      calls = [], clock = (\<lambda>k. 1700000000000 + of_nat k), ticks = 0\<rparr>"

text \<open>The alert of \<open>test-webhook.js\<close> with another timeframe, an alert without optional
  fields, and an alert whose optional fields are all present and falsy.\<close>

definition sample_alert :: alert where
  "sample_alert = \<lparr>symbol = ''BTCUSDT'', price = 45000, action = ''buy'', strategy = None,
     timeframe = Some ''4h'', exchange = Some ''binance'', timestamp = 1700000000000,
     message = Some ''RSI below 30, potential buy signal detected'', volume = None, rsi = None,
     macd = None\<rparr>"

definition bare_alert :: alert where
  "bare_alert = \<lparr>symbol = ''BTCUSDT'', price = 45000, action = ''buy'', strategy = None,
     timeframe = None, exchange = None, timestamp = 1700000000000,
     message = None, volume = None, rsi = None, macd = None\<rparr>"

definition falsy_alert :: alert where
  "falsy_alert = \<lparr>symbol = ''BTCUSDT'', price = 45000, action = ''buy'', strategy = Some '''',
     timeframe = Some '''', exchange = Some '''', timestamp = 1700000000000,
     message = Some '''', volume = Some 0, rsi = Some 0, macd = Some ''''\<rparr>"

text \<open>A response without any marker, and a response that states a confidence of 150 percent.\<close>

definition quiet_chunks :: "string list" where
  "quiet_chunks = [''No clear '', ''signal today.'']"

definition loud_chunks :: "string list" where
  "loud_chunks = [''Recommended action: buy. '', ''Confidence: 150%'']"

text \<open>
  Request bodies: the alert of \<open>test-webhook.js\<close>, a body with \<open>symbol\<close> only, a body with
  an empty \<open>symbol\<close>, and a body whose \<open>price\<close> is 0 next to a \<open>close\<close> of 5.
\<close>

definition sample_body :: json where
  "sample_body =
     JObject [(''symbol'', JString ''BTCUSDT''), (''price'', JNumber 45000), (''action'', JString ''buy''),
              (''timeframe'', JString ''1h''), (''exchange'', JString ''binance''),
              (''message'', JString ''RSI below 30, potential buy signal detected'')]"

definition malformed_body :: json where
  "malformed_body = JObject [(''symbol'', JString ''BTCUSDT'')]"


definition zero_price_body :: json where
  "zero_price_body =
     JObject [(''symbol'', JString ''BTCUSDT''), (''price'', JNumber 0), (''action'', JString ''buy''),
              (''close'', JNumber 5)]"

section \<open>The decision gate\<close>

text \<open>
  Claim C1. With the trading agent registered, \<open>executeTrade\<close> returns a result with
  \<open>executed = false\<close> exactly when the recommended action is \<open>hold\<close> or the confidence
  is below 70. Otherwise, when the agent's stream completes, it returns
  \<open>executed = true\<close> with the trade identifier \<open>trade_\<close> followed by the clock reading.
\<close>

theorem executeTrade_gate:
  assumes "registered w"
  shows "((\<exists>r. fst (executeTrade S (Some a) w) = Inr r \<and> \<not> executed r) \<longleftrightarrow>
          (recommendedAction a = ''hold'' \<or> confidence a < 70)) \<and>
         (\<forall>chunks. \<not> (recommendedAction a = ''hold'' \<or> confidence a < 70) \<and>
             reply w (length (calls w)) (executionPrompt S a) = Inr chunks \<longrightarrow>
             (\<exists>r. fst (executeTrade S (Some a) w) = Inr r \<and> executed r \<and>
                  tradeId r = Some (''trade_'' @ S (clock w (ticks w)))))"
  using assms
  by (auto simp: executeTrade_def Date_now_def agent_stream_def split: prod.splits sum.splits)

text \<open>
  The boundary of the gate on the sample world: confidence 69 with \<open>buy\<close> is skipped,
  confidence 70 with \<open>buy\<close> is executed, confidence 100 with \<open>hold\<close> is skipped.
\<close>

theorem executeTrade_gate_witness:
  "registered sample_world \<and>
   (\<exists>r. fst (executeTrade toString_int (Some (sample_analysis 69 ''buy'')) sample_world) = Inr r
        \<and> \<not> executed r) \<and>
   (\<exists>r. fst (executeTrade toString_int (Some (sample_analysis 70 ''buy'')) sample_world) = Inr r
        \<and> executed r \<and> tradeId r = Some ''trade_1700000000000'') \<and>
   (\<exists>r. fst (executeTrade toString_int (Some (sample_analysis 100 ''hold'')) sample_world) = Inr r
        \<and> \<not> executed r)"
proof -
  have reg: "registered sample_world"
    by (simp add: sample_world_def)
  have low: "recommendedAction (sample_analysis 69 ''buy'') = ''hold''
             \<or> confidence (sample_analysis 69 ''buy'') < 70"
    by (simp add: sample_analysis_def)
  have hold: "recommendedAction (sample_analysis 100 ''hold'') = ''hold''
             \<or> confidence (sample_analysis 100 ''hold'') < 70"
    by (simp add: sample_analysis_def)
  have pass: "\<not> (recommendedAction (sample_analysis 70 ''buy'') = ''hold''
             \<or> confidence (sample_analysis 70 ''buy'') < 70)"
    by (simp add: sample_analysis_def)
  have ok: "reply sample_world (length (calls sample_world))
              (executionPrompt toString_int (sample_analysis 70 ''buy'')) = Inr [''Order '', ''placed'']"
    by (simp add: sample_world_def)
  have t: "''trade_'' @ toString_int (clock sample_world (ticks sample_world))
             = ''trade_1700000000000''"
    by (simp add: sample_world_def toString_int_def)
  from executeTrade_gate [OF reg, of toString_int "sample_analysis 69 ''buy''"] low
  have c69: "\<exists>r. fst (executeTrade toString_int (Some (sample_analysis 69 ''buy'')) sample_world)
               = Inr r \<and> \<not> executed r"
    by blast
  from executeTrade_gate [OF reg, of toString_int "sample_analysis 100 ''hold''"] hold
  have c100: "\<exists>r. fst (executeTrade toString_int (Some (sample_analysis 100 ''hold'')) sample_world)
               = Inr r \<and> \<not> executed r"
    by blast
  from executeTrade_gate [OF reg, of toString_int "sample_analysis 70 ''buy''"] pass ok
  have c70: "\<exists>r. fst (executeTrade toString_int (Some (sample_analysis 70 ''buy'')) sample_world)
               = Inr r \<and> executed r \<and>
               tradeId r = Some (''trade_'' @ toString_int (clock sample_world (ticks sample_world)))"
    by blast
  from reg c69 c70 c100 show ?thesis
    unfolding t by blast
qed

text \<open>
  Claim C2, as stated, fails: \<open>executeTrade\<close> has no \<open>try\<close>/\<open>catch\<close>, so an error thrown by
  the agent's stream leaves the step as that error and no result is returned. On the
  failing world, an analysis with confidence 85 and action \<open>buy\<close> passes the gate and the
  step ends with the agent's error.
\<close>

theorem executeTrade_failure_counterexample:
  "70 \<le> confidence (sample_analysis 85 ''buy'') \<and>
   recommendedAction (sample_analysis 85 ''buy'') \<noteq> ''hold'' \<and>
   reply failing_world (length (calls failing_world))
     (executionPrompt toString_int (sample_analysis 85 ''buy'')) = Inl (Error ''429 quota exceeded'') \<and>
   fst (executeTrade toString_int (Some (sample_analysis 85 ''buy'')) failing_world)
     = Inl (Error ''429 quota exceeded'')"
  by (simp add: executeTrade_def sample_analysis_def failing_world_def agent_stream_def)

text \<open>
  Claim C2, amended. For an analysis that passes the gate, an error thrown by the agent's
  stream is propagated: the step ends with that very error, returns no result, and the
  agent has been called once, with the execution prompt.
\<close>

theorem executeTrade_failure_propagates:
  assumes "registered w"
    and "70 \<le> confidence a"
    and "recommendedAction a \<noteq> ''hold''"
    and "reply w (length (calls w)) (executionPrompt S a) = Inl e"
  shows "executeTrade S (Some a) w = (Inl e, w\<lparr>calls := calls w @ [executionPrompt S a]\<rparr>)"
  using assms by (simp add: executeTrade_def agent_stream_def)

theorem executeTrade_failure_propagates_witness:
  "registered failing_world \<and>
   70 \<le> confidence (sample_analysis 85 ''buy'') \<and>
   recommendedAction (sample_analysis 85 ''buy'') \<noteq> ''hold'' \<and>
   executeTrade toString_int (Some (sample_analysis 85 ''buy'')) failing_world
     = (Inl (Error ''429 quota exceeded''),
        failing_world\<lparr>calls := [executionPrompt toString_int (sample_analysis 85 ''buy'')]\<rparr>)"
proof -
  have reg: "registered failing_world"
    by (simp add: failing_world_def)
  have conf: "70 \<le> confidence (sample_analysis 85 ''buy'')"
    by (simp add: sample_analysis_def)
  have act: "recommendedAction (sample_analysis 85 ''buy'') \<noteq> ''hold''"
    by (simp add: sample_analysis_def)
  have fails: "reply failing_world (length (calls failing_world))
       (executionPrompt toString_int (sample_analysis 85 ''buy'')) = Inl (Error ''429 quota exceeded'')"
    by (simp add: failing_world_def)
  have nocalls: "calls failing_world = []"
    by (simp add: failing_world_def)
  from executeTrade_failure_propagates [OF reg conf act fails] reg conf act nocalls
  show ?thesis by simp
qed

section \<open>The matcher and the language of a pattern\<close>

lemma ci_eq_length: "ci_eq u w \<Longrightarrow> length u = length w"
  unfolding ci_eq_def by (metis length_map)

lemma accepts_prefixI: "s = u @ v \<Longrightarrow> accepts ns u \<Longrightarrow> accepts_prefix ns s"
  unfolding accepts_prefix_def by blast

lemma accepts_ConsI: "node_lang n u1 \<Longrightarrow> accepts ns u2 \<Longrightarrow> accepts (n # ns) (u1 @ u2)"
  by auto

lemma ap_Nil: "accepts_prefix [] s"
  by (simp add: accepts_prefix_def)

lemma ap_Lit:
  "accepts_prefix (Lit w # ns) s =
     (ci_eq (take (length w) s) w \<and> accepts_prefix ns (drop (length w) s))"
proof
  assume "accepts_prefix (Lit w # ns) s"
  then obtain u1 u2 v where s: "s = (u1 @ u2) @ v" and c: "ci_eq u1 w" and a: "accepts ns u2"
    by (auto simp: accepts_prefix_def)
  from c have l: "length u1 = length w" by (rule ci_eq_length)
  from s l have "take (length w) s = u1" "drop (length w) s = u2 @ v" by auto
  with c a show "ci_eq (take (length w) s) w \<and> accepts_prefix ns (drop (length w) s)"
    by (auto simp: accepts_prefix_def)
next
  assume h: "ci_eq (take (length w) s) w \<and> accepts_prefix ns (drop (length w) s)"
  then obtain u2 v where d: "drop (length w) s = u2 @ v" and a: "accepts ns u2"
    by (auto simp: accepts_prefix_def)
  have "s = (take (length w) s @ u2) @ v"
    using d by (metis append_take_drop_id append.assoc)
  moreover have "accepts (Lit w # ns) (take (length w) s @ u2)"
    using h a by auto
  ultimately show "accepts_prefix (Lit w # ns) s"
    unfolding accepts_prefix_def by blast
qed

lemma ap_One_Nil: "\<not> accepts_prefix (One g p # ns) []"
  by (auto simp: accepts_prefix_def)

lemma ap_One_Cons: "accepts_prefix (One g p # ns) (c # s) = (p c \<and> accepts_prefix ns s)"
proof
  assume "accepts_prefix (One g p # ns) (c # s)"
  then obtain x u2 v where e: "c # s = ([x] @ u2) @ v" and px: "p x" and a: "accepts ns u2"
    by (auto simp: accepts_prefix_def)
  from e have "x = c" and "s = u2 @ v" by simp_all
  with px a show "p c \<and> accepts_prefix ns s"
    by (auto intro: accepts_prefixI)
next
  assume h: "p c \<and> accepts_prefix ns s"
  then obtain u2 v where e: "s = u2 @ v" and a: "accepts ns u2"
    by (auto simp: accepts_prefix_def)
  from h have "node_lang (One g p) [c]" by simp
  then have "accepts (One g p # ns) ([c] @ u2)" using a by (rule accepts_ConsI)
  moreover from e have "c # s = ([c] @ u2) @ v" by simp
  ultimately show "accepts_prefix (One g p # ns) (c # s)"
    by (rule accepts_prefixI [rotated])
qed

lemma ap_Star_Nil: "accepts_prefix (Star g p # ns) [] = accepts_prefix ns []"
  by (auto simp: accepts_prefix_def)

lemma ap_Star_Cons:
  "accepts_prefix (Star g p # ns) (c # s) =
     ((p c \<and> accepts_prefix (Star g p # ns) s) \<or> accepts_prefix ns (c # s))"
proof
  assume "accepts_prefix (Star g p # ns) (c # s)"
  then obtain u1 u2 v where s: "c # s = (u1 @ u2) @ v" and l: "list_all p u1" and a: "accepts ns u2"
    by (auto simp: accepts_prefix_def)
  show "(p c \<and> accepts_prefix (Star g p # ns) s) \<or> accepts_prefix ns (c # s)"
  proof (cases u1)
    case Nil
    with s a have "accepts_prefix ns (c # s)"
      unfolding accepts_prefix_def by auto
    then show ?thesis ..
  next
    case (Cons x u1')
    with s l have pc: "p c" and s': "s = (u1' @ u2) @ v" and l': "list_all p u1'" by auto
    from l' have "node_lang (Star g p) u1'" by simp
    then have "accepts (Star g p # ns) (u1' @ u2)" using a by (rule accepts_ConsI)
    with s' have "accepts_prefix (Star g p # ns) s" by (rule accepts_prefixI)
    with pc show ?thesis by simp
  qed
next
  assume "(p c \<and> accepts_prefix (Star g p # ns) s) \<or> accepts_prefix ns (c # s)"
  then show "accepts_prefix (Star g p # ns) (c # s)"
  proof
    assume h: "p c \<and> accepts_prefix (Star g p # ns) s"
    then obtain u1 u2 v where s: "s = (u1 @ u2) @ v" and l: "list_all p u1" and a: "accepts ns u2"
      by (auto simp: accepts_prefix_def)
    from s have e: "c # s = ((c # u1) @ u2) @ v" by simp
    from h l have "node_lang (Star g p) (c # u1)" by simp
    then have "accepts (Star g p # ns) ((c # u1) @ u2)" using a by (rule accepts_ConsI)
    with e show ?thesis by (rule accepts_prefixI)
  next
    assume "accepts_prefix ns (c # s)"
    then obtain u2 v where s: "c # s = u2 @ v" and a: "accepts ns u2"
      by (auto simp: accepts_prefix_def)
    have "node_lang (Star g p) []" by simp
    then have "accepts (Star g p # ns) ([] @ u2)" using a by (rule accepts_ConsI)
    moreover from s have "c # s = ([] @ u2) @ v" by simp
    ultimately show ?thesis by (rule accepts_prefixI [rotated])
  qed
qed

lemma ap_Alt_Nil: "\<not> accepts_prefix (Alt [] # ns) s"
  by (auto simp: accepts_prefix_def)

lemma accepts_Alt_Cons:
  "accepts (Alt (w # ws) # ns) u = (accepts (Lit w # ns) u \<or> accepts (Alt ws # ns) u)"
  by simp blast

lemma ap_Alt_Cons:
  "accepts_prefix (Alt (w # ws) # ns) s =
     ((ci_eq (take (length w) s) w \<and> accepts_prefix ns (drop (length w) s))
      \<or> accepts_prefix (Alt ws # ns) s)"
proof -
  have "accepts_prefix (Alt (w # ws) # ns) s =
          (accepts_prefix (Lit w # ns) s \<or> accepts_prefix (Alt ws # ns) s)"
    unfolding accepts_prefix_def accepts_Alt_Cons by blast
  then show ?thesis by (simp add: ap_Lit)
qed


lemma match_at_None_iff: "(match_at ns s cap = None) = (\<not> accepts_prefix ns s)"
proof (induction ns s cap rule: match_at.induct)
  case (1 s cap)
  show ?case by (simp add: ap_Nil)
next
  case (2 w ns s cap)
  then show ?case by (simp add: ap_Lit)
next
  case (3 g p ns cap)
  show ?case by (simp add: ap_One_Nil)
next
  case (4 g p ns c s cap)
  show ?case
  proof (cases "p c")
    case True
    with 4 [OF True] show ?thesis by (simp add: ap_One_Cons split del: if_split)
  next
    case False
    then show ?thesis by (simp add: ap_One_Cons)
  qed
next
  case (5 g p ns cap)
  then show ?case by (simp add: ap_Star_Nil)
next
  case (6 g p ns c s cap)
  show ?case
  proof (cases "p c")
    case False
    with 6(3) show ?thesis by (simp add: ap_Star_Cons)
  next
    case True
    note ih1 = 6(1) [OF True]
    show ?thesis
    proof (cases "match_at (Star g p # ns) s (if g then cap @ [c] else cap)")
      case None
      from 6(2) [OF True None] None ih1 True show ?thesis
        by (simp add: ap_Star_Cons split del: if_split)
    next
      case (Some r)
      with ih1 True show ?thesis
        by (simp add: ap_Star_Cons split del: if_split)
    qed
  qed
next
  case (7 ns s cap)
  show ?case by (simp add: ap_Alt_Nil)
next
  case (8 w ws ns s cap)
  show ?case
  proof (cases "ci_eq (take (length w) s) w")
    case False
    with 8(3) show ?thesis by (simp add: ap_Alt_Cons)
  next
    case True
    note ih1 = 8(1) [OF True]
    show ?thesis
    proof (cases "match_at ns (drop (length w) s) (cap @ take (length w) s)")
      case None
      from 8(2) [OF True None] None ih1 True show ?thesis
        by (simp add: ap_Alt_Cons)
    next
      case (Some r)
      with ih1 True show ?thesis
        by (simp add: ap_Alt_Cons)
    qed
  qed
qed

lemma contains_match_Nil: "contains_match ns [] = accepts_prefix ns []"
  by (auto simp: contains_match_def accepts_prefix_def)

lemma contains_match_Cons:
  "contains_match ns (c # s) = (accepts_prefix ns (c # s) \<or> contains_match ns s)"
proof
  assume "contains_match ns (c # s)"
  then obtain pre u post where e: "c # s = pre @ u @ post" and a: "accepts ns u"
    unfolding contains_match_def by blast
  show "accepts_prefix ns (c # s) \<or> contains_match ns s"
  proof (cases pre)
    case Nil
    with e a have "accepts_prefix ns (c # s)"
      unfolding accepts_prefix_def by auto
    then show ?thesis ..
  next
    case (Cons x pre')
    with e have "s = pre' @ u @ post" by simp
    with a have "contains_match ns s"
      unfolding contains_match_def by blast
    then show ?thesis ..
  qed
next
  assume "accepts_prefix ns (c # s) \<or> contains_match ns s"
  then show "contains_match ns (c # s)"
  proof
    assume "accepts_prefix ns (c # s)"
    then obtain u v where "c # s = [] @ u @ v" and "accepts ns u"
      unfolding accepts_prefix_def by auto
    then show ?thesis unfolding contains_match_def by blast
  next
    assume "contains_match ns s"
    then obtain pre u post where "s = pre @ u @ post" and a: "accepts ns u"
      unfolding contains_match_def by blast
    then have "c # s = (c # pre) @ u @ post" by simp
    with a show ?thesis unfolding contains_match_def by blast
  qed
qed

lemma search_None_iff: "(search ns s = None) = (\<not> contains_match ns s)"
proof (induction s)
  case Nil
  show ?case by (simp add: contains_match_Nil match_at_None_iff)
next
  case (Cons c s)
  show ?case
  proof (cases "match_at ns (c # s) []")
    case None
    then have "\<not> accepts_prefix ns (c # s)"
      using match_at_None_iff [of ns "c # s" "[]"] by simp
    with None Cons show ?thesis
      by (simp add: contains_match_Cons)
  next
    case (Some r)
    then have "accepts_prefix ns (c # s)"
      using match_at_None_iff [of ns "c # s" "[]"] by simp
    with Some show ?thesis
      by (simp add: contains_match_Cons)
  qed
qed

section \<open>The extractor\<close>

lemma Canonicalize_percent: "(Canonicalize x = CHR ''%'') = (x = CHR ''%'')"
  by (auto simp: Canonicalize_def split: if_splits)

lemma ci_eq_refl [simp]: "ci_eq u u"
  by (simp add: ci_eq_def)

lemma Canonicalize_of_percent: "Canonicalize CHR ''%'' = CHR ''%''"
  by (simp add: Canonicalize_def)

lemma ci_eq_percent: "ci_eq u ''%'' = (u = ''%'')"
  by (cases u) (auto simp: ci_eq_def Canonicalize_percent Canonicalize_of_percent)

lemma accepts_confidence: "accepts confidence_re u = confidence_marker u"
proof
  assume "accepts confidence_re u"
  then obtain w seps c ds p where u: "u = w @ seps @ [c] @ ds @ p"
    and w: "ci_eq w ''confidence''" and seps: "list_all colon_or_space seps"
    and c: "is_digit c" and ds: "list_all is_digit ds" and p: "ci_eq p ''%''"
    unfolding confidence_re_def by auto
  from p have "p = ''%''" by (simp add: ci_eq_percent)
  with u have "u = w @ seps @ (c # ds) @ ''%''" by simp
  moreover from c ds have "c # ds \<noteq> [] \<and> list_all is_digit (c # ds)" by simp
  ultimately show "confidence_marker u"
    unfolding confidence_marker_def using w seps by blast
next
  assume "confidence_marker u"
  then obtain w seps ds where u: "u = w @ seps @ ds @ ''%''"
    and w: "ci_eq w ''confidence''" and seps: "list_all colon_or_space seps"
    and ne: "ds \<noteq> []" and ds: "list_all is_digit ds"
    unfolding confidence_marker_def by blast
  from ne obtain c ds' where cd: "ds = c # ds'" by (cases ds) auto
  from ds cd have c: "is_digit c" and ds': "list_all is_digit ds'" by simp_all
  have a1: "accepts [Lit ''%''] ''%''"
    by simp
  have a2: "accepts [Star True is_digit, Lit ''%''] (ds' @ ''%'')"
    by (rule accepts_ConsI [OF _ a1]) (simp add: ds')
  have a3: "accepts [One True is_digit, Star True is_digit, Lit ''%''] ([c] @ ds' @ ''%'')"
    by (rule accepts_ConsI [OF _ a2]) (simp add: c)
  have a4: "accepts [Star False colon_or_space, One True is_digit, Star True is_digit, Lit ''%'']
               (seps @ [c] @ ds' @ ''%'')"
    by (rule accepts_ConsI [OF _ a3]) (simp add: seps)
  have "accepts confidence_re (w @ seps @ [c] @ ds' @ ''%'')"
    unfolding confidence_re_def by (rule accepts_ConsI [OF _ a4]) (simp add: w)
  with u cd show "accepts confidence_re u" by simp
qed

lemma contains_match_has_marker:
  assumes "\<And>u. accepts ns u = M u"
  shows "contains_match ns s = has_marker M s"
  by (simp add: contains_match_def has_marker_def assms)

lemma match_at_Star_Lit_capture:
  "match_at [Star True p, Lit w] s cap = Some r \<Longrightarrow> \<exists>ds. r = cap @ ds \<and> list_all p ds"
proof (induction s arbitrary: cap)
  case Nil
  then show ?case by (auto split: if_splits)
next
  case (Cons c s)
  show ?case
  proof (cases "p c \<and> match_at [Star True p, Lit w] s (cap @ [c]) \<noteq> None")
    case True
    with Cons.prems have "match_at [Star True p, Lit w] s (cap @ [c]) = Some r"
      by (auto split: option.splits)
    from Cons.IH [OF this] obtain ds where "r = (cap @ [c]) @ ds" "list_all p ds" by blast
    with True have "r = cap @ (c # ds) \<and> list_all p (c # ds)" by simp
    then show ?thesis by blast
  next
    case False
    with Cons.prems have "r = cap"
      by (auto split: option.splits if_splits)
    then show ?thesis by auto
  qed
qed

lemma accepts_word_alt:
  "accepts [Lit w0, Star False q, Alt ws] u =
     (\<exists>w seps k. u = w @ seps @ k \<and> ci_eq w w0 \<and> list_all q seps \<and> (\<exists>x \<in> set ws. ci_eq k x))"
  by simp blast

lemma accepts_action: "accepts action_re u = action_marker u"
  unfolding action_re_def action_marker_def accepts_word_alt by simp

lemma accepts_risk: "accepts risk_re u = risk_marker u"
  unfolding risk_re_def risk_marker_def accepts_word_alt by simp

lemma search_confidence_None:
  "(search confidence_re s = None) = (\<not> has_marker confidence_marker s)"
  by (simp add: search_None_iff contains_match_has_marker [OF accepts_confidence])

lemma search_action_None:
  "(search action_re s = None) = (\<not> has_marker action_marker s)"
  by (simp add: search_None_iff contains_match_has_marker [OF accepts_action])

lemma search_risk_None:
  "(search risk_re s = None) = (\<not> has_marker risk_marker s)"
  by (simp add: search_None_iff contains_match_has_marker [OF accepts_risk])

lemma match_at_confidence_tail_capture:
  "match_at [Star False q, One True p, Star True p, Lit w] s [] = Some r \<Longrightarrow> r \<noteq> [] \<and> list_all p r"
proof (induction s)
  case Nil
  then show ?case by simp
next
  case (Cons c s)
  show ?case
  proof (cases "q c \<and> match_at [Star False q, One True p, Star True p, Lit w] s [] \<noteq> None")
    case True
    with Cons.prems have "match_at [Star False q, One True p, Star True p, Lit w] s [] = Some r"
      by (auto split: option.splits)
    then show ?thesis by (rule Cons.IH)
  next
    case False
    with Cons.prems have "p c" and "match_at [Star True p, Lit w] s [c] = Some r"
      by (auto split: option.splits if_splits)
    from match_at_Star_Lit_capture [OF this(2)] \<open>p c\<close> show ?thesis by auto
  qed
qed

lemma match_at_confidence_capture:
  "match_at confidence_re s [] = Some r \<Longrightarrow> r \<noteq> [] \<and> list_all is_digit r"
  unfolding confidence_re_def
  by (auto split: if_splits dest: match_at_confidence_tail_capture)

lemma search_confidence_capture:
  "search confidence_re s = Some r \<Longrightarrow> r \<noteq> [] \<and> list_all is_digit r"
proof (induction s)
  case Nil
  then show ?case by (simp add: match_at_confidence_capture)
next
  case (Cons c s)
  show ?case
  proof (cases "match_at confidence_re (c # s) []")
    case None
    with Cons show ?thesis by simp
  next
    case (Some r')
    with Cons.prems have "match_at confidence_re (c # s) [] = Some r" by simp
    then show ?thesis by (rule match_at_confidence_capture)
  qed
qed

lemma collect_concat: "collect chunks = concat chunks"
proof -
  have "foldl (\<lambda>text chunk. text @ chunk) acc chunks = acc @ concat chunks" for acc
    by (induction chunks arbitrary: acc) simp_all
  then show ?thesis by (simp add: collect_def)
qed

text \<open>
  Claim C4. When the agent's response contains no confidence marker, no
  recommended-action marker and no risk-level marker, the extractor yields confidence
  50, action \<open>hold\<close> and risk level \<open>medium\<close>, and \<open>analyzeAlert\<close> returns an analysis with
  these values: the outcome is a result, not an error.
\<close>

theorem analyzeAlert_defaults:
  assumes "registered w"
    and "reply w (length (calls w)) (analysisPrompt S a) = Inr chunks"
    and "\<not> has_marker confidence_marker (concat chunks)"
    and "\<not> has_marker action_marker (concat chunks)"
    and "\<not> has_marker risk_marker (concat chunks)"
  shows "extractConfidence (concat chunks) = 50 \<and>
         extractAction (concat chunks) = ''hold'' \<and>
         extractRisk (concat chunks) = ''medium'' \<and>
         (\<exists>an r. fst (analyzeAlert S (Some a) w) = Inr an \<and> confidence an = 50 \<and>
               recommendedAction an = ''hold'' \<and> riskLevel an = ''medium'' \<and>
               fst (executeTrade S (Some an) (snd (analyzeAlert S (Some a) w))) = Inr r \<and>
               \<not> executed r)"
proof -
  from assms(3) have c: "search confidence_re (concat chunks) = None"
    by (simp add: search_confidence_None)
  from assms(4) have a: "search action_re (concat chunks) = None"
    by (simp add: search_action_None)
  from assms(5) have r: "search risk_re (concat chunks) = None"
    by (simp add: search_risk_None)
  from c a r assms(1,2) show ?thesis
    by (simp add: analyzeAlert_def agent_stream_def collect_concat extractConfidence_def
        extractAction_def extractRisk_def executeTrade_def Date_now_def)
qed

text \<open>
  A response without markers, run through \<open>analyzeAlert\<close>.
\<close>

theorem analyzeAlert_defaults_witness:
  "registered (world_replying quiet_chunks) \<and>
   \<not> has_marker confidence_marker (concat quiet_chunks) \<and>
   \<not> has_marker action_marker (concat quiet_chunks) \<and>
   \<not> has_marker risk_marker (concat quiet_chunks) \<and>
   (\<exists>an r. fst (analyzeAlert toString_int (Some sample_alert) (world_replying quiet_chunks)) = Inr an \<and>
         confidence an = 50 \<and> recommendedAction an = ''hold'' \<and> riskLevel an = ''medium'' \<and>
         fst (executeTrade toString_int (Some an)
                (snd (analyzeAlert toString_int (Some sample_alert) (world_replying quiet_chunks))))
           = Inr r \<and> \<not> executed r)"
proof -
  have reg: "registered (world_replying quiet_chunks)"
    by (simp add: world_replying_def)
  have rep: "reply (world_replying quiet_chunks) (length (calls (world_replying quiet_chunks)))
           (analysisPrompt toString_int sample_alert) = Inr quiet_chunks"
    by (simp add: world_replying_def)
  have "search confidence_re (concat quiet_chunks) = None"
    by code_simp
  then have c: "\<not> has_marker confidence_marker (concat quiet_chunks)"
    by (simp add: search_confidence_None)
  have "search action_re (concat quiet_chunks) = None"
    by code_simp
  then have a: "\<not> has_marker action_marker (concat quiet_chunks)"
    by (simp add: search_action_None)
  have "search risk_re (concat quiet_chunks) = None"
    by code_simp
  then have r: "\<not> has_marker risk_marker (concat quiet_chunks)"
    by (simp add: search_risk_None)
  from analyzeAlert_defaults [OF reg rep c a r] reg c a r show ?thesis
    by blast
qed


text \<open>
  Claim C3 fails on the code. The group \<open>(\d+)\<close> takes any number of digits and
  nothing clamps the parsed value: for the response \<open>Recommended action: buy.
  Confidence: 150%\<close> the extractor yields 150 and \<open>analyzeAlert\<close> returns an analysis with
  confidence 150, outside the interval from 0 to 100 that \<open>tradingAnalysisSchema\<close>
  declares for this field.
\<close>

theorem extractConfidence_above_100:
  "extractConfidence (concat loud_chunks) = 150 \<and>
   (\<exists>an. fst (analyzeAlert toString_int (Some sample_alert) (world_replying loud_chunks)) = Inr an \<and>
         confidence an = 150 \<and> \<not> confidence an \<le> 100)"
proof -
  have s: "search confidence_re (concat loud_chunks) = Some ''150''"
    by code_simp
  have p: "parseInt ''150'' = 150"
    by code_simp
  from s p have e: "extractConfidence (concat loud_chunks) = 150"
    by (simp add: extractConfidence_def)
  then show ?thesis
    by (simp add: analyzeAlert_def agent_stream_def world_replying_def collect_concat Let_def)
qed

section \<open>The prompt builder\<close>

lemma join_lines_Cons: "ls \<noteq> [] \<Longrightarrow> join_lines (l # ls) = l @ nl @ join_lines ls"
  by (cases ls) simp_all

lemma join_lines_append:
  "xs \<noteq> [] \<Longrightarrow> ys \<noteq> [] \<Longrightarrow> join_lines (xs @ ys) = join_lines xs @ nl @ join_lines ys"
proof (induction xs)
  case Nil
  then show ?case by simp
next
  case (Cons x xs)
  show ?case
  proof (cases xs)
    case Nil
    with Cons.prems show ?thesis by (simp add: join_lines_Cons)
  next
    case (Cons x' xs')
    with Cons.IH Cons.prems show ?thesis by (simp add: join_lines_Cons)
  qed
qed

lemma line_in_join_lines:
  assumes "l \<in> set ls" and "hs \<noteq> []" and "ts \<noteq> []"
  shows "sublist (nl @ l @ nl) (join_lines (hs @ ls @ ts))"
proof -
  from assms(1) obtain as bs where ls: "ls = as @ l # bs"
    by (auto simp: in_set_conv_decomp)
  have e: "hs @ ls @ ts = (hs @ as) @ (l # (bs @ ts))"
    by (simp add: ls)
  have "join_lines ((hs @ as) @ (l # (bs @ ts)))
      = join_lines (hs @ as) @ nl @ join_lines (l # (bs @ ts))"
    using assms(2) by (intro join_lines_append) simp_all
  also have "join_lines (l # (bs @ ts)) = l @ nl @ join_lines (bs @ ts)"
    using assms(3) by (intro join_lines_Cons) simp
  finally have "join_lines (hs @ ls @ ts)
      = join_lines (hs @ as) @ (nl @ l @ nl) @ join_lines (bs @ ts)"
    by (simp add: e)
  then show ?thesis
    unfolding sublist_def by blast
qed

lemma alert_line_in_prompt:
  "l \<in> set (alertLines S a) \<Longrightarrow> sublist (nl @ l @ nl) (analysisPrompt S a)"
  unfolding analysisPrompt_def promptFrame_def
  by (rule line_in_join_lines) simp_all

lemma alertLines_labels: "list_all2 prefix promptLabels (alertLines S a)"
  by (simp add: promptLabels_def alertLines_def)

lemma str_or_None: "str_or None d = d"
  by (simp add: str_or_def)

lemma str_or_empty: "str_or (Some []) d = d"
  by (simp add: str_or_def)

lemma num_or_None: "num_or S None d = d"
  by (simp add: num_or_def)

lemma num_or_zero: "num_or S (Some 0) d = d"
  by (simp add: num_or_def)

text \<open>
  Claim C8. For every alert, the ten lines of alert data open with the same ten labels,
  in the same order, whatever optional fields are present; each of them is a line of
  the prompt; and the line of an absent optional field is its label followed by the
  placeholder \<open>Not specified\<close>, \<open>Not available\<close> or \<open>No additional message\<close>.
\<close>

theorem analysisPrompt_uniform:
  "list_all2 prefix promptLabels (alertLines S a) \<and>
   (\<forall>l \<in> set (alertLines S a). sublist (nl @ l @ nl) (analysisPrompt S a)) \<and>
   (strategy a = None \<longrightarrow> alertLines S a ! 3 = ''- Strategy: Not specified'') \<and>
   (timeframe a = None \<longrightarrow> alertLines S a ! 4 = ''- Timeframe: Not specified'') \<and>
   (exchange a = None \<longrightarrow> alertLines S a ! 5 = ''- Exchange: Not specified'') \<and>
   (volume a = None \<longrightarrow> alertLines S a ! 6 = ''- Volume: Not available'') \<and>
   (rsi a = None \<longrightarrow> alertLines S a ! 7 = ''- RSI: Not available'') \<and>
   (macd a = None \<longrightarrow> alertLines S a ! 8 = ''- MACD: Not available'') \<and>
   (message a = None \<longrightarrow> alertLines S a ! 9 = ''- Message: No additional message'')"
proof -
  have "\<forall>l \<in> set (alertLines S a). sublist (nl @ l @ nl) (analysisPrompt S a)"
    by (blast intro: alert_line_in_prompt)
  moreover have "strategy a = None \<longrightarrow> alertLines S a ! 3 = ''- Strategy: Not specified''"
    by (simp add: alertLines_def str_or_None)
  moreover have "timeframe a = None \<longrightarrow> alertLines S a ! 4 = ''- Timeframe: Not specified''"
    by (simp add: alertLines_def str_or_None)
  moreover have "exchange a = None \<longrightarrow> alertLines S a ! 5 = ''- Exchange: Not specified''"
    by (simp add: alertLines_def str_or_None)
  moreover have "volume a = None \<longrightarrow> alertLines S a ! 6 = ''- Volume: Not available''"
    by (simp add: alertLines_def num_or_None)
  moreover have "rsi a = None \<longrightarrow> alertLines S a ! 7 = ''- RSI: Not available''"
    by (simp add: alertLines_def num_or_None)
  moreover have "macd a = None \<longrightarrow> alertLines S a ! 8 = ''- MACD: Not available''"
    by (simp add: alertLines_def str_or_None)
  moreover have "message a = None \<longrightarrow> alertLines S a ! 9 = ''- Message: No additional message''"
    by (simp add: alertLines_def str_or_None)
  ultimately show ?thesis
    using alertLines_labels by blast
qed

text \<open>
  The alert without optional fields: its ten lines, two of which are looked up in the
  prompt.
\<close>

theorem analysisPrompt_uniform_witness:
  "strategy bare_alert = None \<and> timeframe bare_alert = None \<and> exchange bare_alert = None \<and>
   volume bare_alert = None \<and> rsi bare_alert = None \<and> macd bare_alert = None \<and>
   message bare_alert = None \<and>
   alertLines toString_int bare_alert =
     [''- Symbol: BTCUSDT'', ''- Price: $45000'', ''- Action: buy'',
      ''- Strategy: Not specified'', ''- Timeframe: Not specified'',
      ''- Exchange: Not specified'', ''- Volume: Not available'', ''- RSI: Not available'',
      ''- MACD: Not available'', ''- Message: No additional message''] \<and>
   sublist (nl @ ''- Strategy: Not specified'' @ nl) (analysisPrompt toString_int bare_alert) \<and>
   sublist (nl @ ''- Volume: Not available'' @ nl) (analysisPrompt toString_int bare_alert)"
proof -
  have absent: "strategy bare_alert = None" "timeframe bare_alert = None"
    "exchange bare_alert = None" "volume bare_alert = None" "rsi bare_alert = None"
    "macd bare_alert = None" "message bare_alert = None"
    by (simp_all add: bare_alert_def)
  note u = analysisPrompt_uniform [of toString_int bare_alert]
  from u absent have rest:
    "alertLines toString_int bare_alert ! 3 = ''- Strategy: Not specified''"
    "alertLines toString_int bare_alert ! 4 = ''- Timeframe: Not specified''"
    "alertLines toString_int bare_alert ! 5 = ''- Exchange: Not specified''"
    "alertLines toString_int bare_alert ! 6 = ''- Volume: Not available''"
    "alertLines toString_int bare_alert ! 7 = ''- RSI: Not available''"
    "alertLines toString_int bare_alert ! 8 = ''- MACD: Not available''"
    "alertLines toString_int bare_alert ! 9 = ''- Message: No additional message''"
    by blast+
  have mem:
    "''- Strategy: Not specified'' \<in> set (alertLines toString_int bare_alert)"
    "''- Volume: Not available'' \<in> set (alertLines toString_int bare_alert)"
    by (simp_all add: alertLines_def bare_alert_def str_or_None num_or_None)
  from u mem have sub:
    "sublist (nl @ ''- Strategy: Not specified'' @ nl) (analysisPrompt toString_int bare_alert)"
    "sublist (nl @ ''- Volume: Not available'' @ nl) (analysisPrompt toString_int bare_alert)"
    by blast+
  have first: "take 3 (alertLines toString_int bare_alert) =
      [''- Symbol: BTCUSDT'', ''- Price: $45000'', ''- Action: buy'']"
    by (simp add: alertLines_def bare_alert_def toString_int_def)
  have "alertLines toString_int bare_alert =
          take 3 (alertLines toString_int bare_alert) @
          map (\<lambda>i. alertLines toString_int bare_alert ! i) [3, 4, 5, 6, 7, 8, 9]"
    by (simp add: alertLines_def)
  with first rest have all: "alertLines toString_int bare_alert =
     [''- Symbol: BTCUSDT'', ''- Price: $45000'', ''- Action: buy'',
      ''- Strategy: Not specified'', ''- Timeframe: Not specified'',
      ''- Exchange: Not specified'', ''- Volume: Not available'', ''- RSI: Not available'',
      ''- MACD: Not available'', ''- Message: No additional message'']"
    by simp
  from absent all sub show ?thesis by blast
qed

text \<open>
  Claim C9. An optional field that is present but falsy (the number 0 for \<open>volume\<close> and
  \<open>rsi\<close>, the empty string for the string fields) is rendered as the placeholder: its
  line is the label followed by the placeholder, a line of the prompt, and the prompt is
  the one of the alert with that field absent.
\<close>

theorem analysisPrompt_falsy_placeholder:
  "(strategy a = Some [] \<longrightarrow> alertLines S a ! 3 = ''- Strategy: Not specified'' \<and>
      analysisPrompt S a = analysisPrompt S (a\<lparr>strategy := None\<rparr>)) \<and>
   (timeframe a = Some [] \<longrightarrow> alertLines S a ! 4 = ''- Timeframe: Not specified'' \<and>
      analysisPrompt S a = analysisPrompt S (a\<lparr>timeframe := None\<rparr>)) \<and>
   (exchange a = Some [] \<longrightarrow> alertLines S a ! 5 = ''- Exchange: Not specified'' \<and>
      analysisPrompt S a = analysisPrompt S (a\<lparr>exchange := None\<rparr>)) \<and>
   (volume a = Some 0 \<longrightarrow> alertLines S a ! 6 = ''- Volume: Not available'' \<and>
      analysisPrompt S a = analysisPrompt S (a\<lparr>volume := None\<rparr>)) \<and>
   (rsi a = Some 0 \<longrightarrow> alertLines S a ! 7 = ''- RSI: Not available'' \<and>
      analysisPrompt S a = analysisPrompt S (a\<lparr>rsi := None\<rparr>)) \<and>
   (macd a = Some [] \<longrightarrow> alertLines S a ! 8 = ''- MACD: Not available'' \<and>
      analysisPrompt S a = analysisPrompt S (a\<lparr>macd := None\<rparr>)) \<and>
   (message a = Some [] \<longrightarrow> alertLines S a ! 9 = ''- Message: No additional message'' \<and>
      analysisPrompt S a = analysisPrompt S (a\<lparr>message := None\<rparr>)) \<and>
   (\<forall>l \<in> set (alertLines S a). sublist (nl @ l @ nl) (analysisPrompt S a))"
proof -
  have "strategy a = Some [] \<longrightarrow> alertLines S a ! 3 = ''- Strategy: Not specified'' \<and>
      analysisPrompt S a = analysisPrompt S (a\<lparr>strategy := None\<rparr>)"
    by (simp add: analysisPrompt_def alertLines_def str_or_None str_or_empty)
  moreover have "timeframe a = Some [] \<longrightarrow> alertLines S a ! 4 = ''- Timeframe: Not specified'' \<and>
      analysisPrompt S a = analysisPrompt S (a\<lparr>timeframe := None\<rparr>)"
    by (simp add: analysisPrompt_def alertLines_def str_or_None str_or_empty)
  moreover have "exchange a = Some [] \<longrightarrow> alertLines S a ! 5 = ''- Exchange: Not specified'' \<and>
      analysisPrompt S a = analysisPrompt S (a\<lparr>exchange := None\<rparr>)"
    by (simp add: analysisPrompt_def alertLines_def str_or_None str_or_empty)
  moreover have "volume a = Some 0 \<longrightarrow> alertLines S a ! 6 = ''- Volume: Not available'' \<and>
      analysisPrompt S a = analysisPrompt S (a\<lparr>volume := None\<rparr>)"
    by (simp add: analysisPrompt_def alertLines_def num_or_None num_or_zero)
  moreover have "rsi a = Some 0 \<longrightarrow> alertLines S a ! 7 = ''- RSI: Not available'' \<and>
      analysisPrompt S a = analysisPrompt S (a\<lparr>rsi := None\<rparr>)"
    by (simp add: analysisPrompt_def alertLines_def num_or_None num_or_zero)
  moreover have "macd a = Some [] \<longrightarrow> alertLines S a ! 8 = ''- MACD: Not available'' \<and>
      analysisPrompt S a = analysisPrompt S (a\<lparr>macd := None\<rparr>)"
    by (simp add: analysisPrompt_def alertLines_def str_or_None str_or_empty)
  moreover have "message a = Some [] \<longrightarrow> alertLines S a ! 9 = ''- Message: No additional message'' \<and>
      analysisPrompt S a = analysisPrompt S (a\<lparr>message := None\<rparr>)"
    by (simp add: analysisPrompt_def alertLines_def str_or_None str_or_empty)
  moreover have "\<forall>l \<in> set (alertLines S a). sublist (nl @ l @ nl) (analysisPrompt S a)"
    by (blast intro: alert_line_in_prompt)
  ultimately show ?thesis by blast
qed

text \<open>
  The alert whose optional fields are all falsy has the prompt of the alert without
  optional fields.
\<close>

theorem analysisPrompt_falsy_placeholder_witness:
  "strategy falsy_alert = Some [] \<and> timeframe falsy_alert = Some [] \<and>
   exchange falsy_alert = Some [] \<and> volume falsy_alert = Some 0 \<and> rsi falsy_alert = Some 0 \<and>
   macd falsy_alert = Some [] \<and> message falsy_alert = Some [] \<and>
   alertLines toString_int falsy_alert ! 6 = ''- Volume: Not available'' \<and>
   alertLines toString_int falsy_alert ! 7 = ''- RSI: Not available'' \<and>
   alertLines toString_int falsy_alert ! 3 = ''- Strategy: Not specified'' \<and>
   analysisPrompt toString_int falsy_alert = analysisPrompt toString_int bare_alert \<and>
   sublist (nl @ ''- Volume: Not available'' @ nl) (analysisPrompt toString_int falsy_alert)"
proof -
  have falsy: "strategy falsy_alert = Some []" "timeframe falsy_alert = Some []"
    "exchange falsy_alert = Some []" "volume falsy_alert = Some 0" "rsi falsy_alert = Some 0"
    "macd falsy_alert = Some []" "message falsy_alert = Some []"
    by (simp_all add: falsy_alert_def)
  note f = analysisPrompt_falsy_placeholder [where S = toString_int and a = falsy_alert]
  from f falsy have lines:
    "alertLines toString_int falsy_alert ! 6 = ''- Volume: Not available''"
    "alertLines toString_int falsy_alert ! 7 = ''- RSI: Not available''"
    "alertLines toString_int falsy_alert ! 3 = ''- Strategy: Not specified''"
    by blast+
  have mem: "''- Volume: Not available'' \<in> set (alertLines toString_int falsy_alert)"
    by (simp add: alertLines_def falsy_alert_def num_or_zero)
  with f have sub:
    "sublist (nl @ ''- Volume: Not available'' @ nl) (analysisPrompt toString_int falsy_alert)"
    by blast
  have same: "analysisPrompt toString_int falsy_alert = analysisPrompt toString_int bare_alert"
    by (simp add: analysisPrompt_def alertLines_def falsy_alert_def bare_alert_def
        str_or_None str_or_empty num_or_None num_or_zero)
  from falsy lines same sub show ?thesis by blast
qed

text \<open>
  Claim C10. Every analysis returned by \<open>analyzeAlert\<close> has the price of the alert as
  \<open>currentPrice\<close>, the timeframe \<open>1h\<close> when the alert's timeframe is absent or empty, and
  the alert's timeframe unchanged when it is a non-empty string; and an analysis is
  returned whenever the agent is registered and its stream completes.
\<close>

theorem analyzeAlert_timeframe_price:
  "(\<forall>an. fst (analyzeAlert S (Some a) w) = Inr an \<longrightarrow>
      currentPrice an = price a \<and>
      (timeframe a = None \<or> timeframe a = Some [] \<longrightarrow> timeframe_an an = ''1h'') \<and>
      (\<forall>tf. timeframe a = Some tf \<and> tf \<noteq> [] \<longrightarrow> timeframe_an an = tf)) \<and>
   (\<forall>chunks. registered w \<and> reply w (length (calls w)) (analysisPrompt S a) = Inr chunks \<longrightarrow>
      (\<exists>an. fst (analyzeAlert S (Some a) w) = Inr an))"
  by (auto simp: analyzeAlert_def agent_stream_def str_or_def Let_def split: if_splits sum.splits)

text \<open>
  The three cases of the timeframe on concrete alerts.
\<close>

theorem analyzeAlert_timeframe_price_witness:
  "(\<exists>an. fst (analyzeAlert toString_int (Some bare_alert) (world_replying [''Wait.''])) = Inr an \<and>
         timeframe bare_alert = None \<and> timeframe_an an = ''1h'' \<and> currentPrice an = 45000) \<and>
   (\<exists>an. fst (analyzeAlert toString_int (Some falsy_alert) (world_replying [''Wait.''])) = Inr an \<and>
         timeframe falsy_alert = Some [] \<and> timeframe_an an = ''1h'') \<and>
   (\<exists>an. fst (analyzeAlert toString_int (Some sample_alert) (world_replying [''Wait.''])) = Inr an \<and>
         timeframe sample_alert = Some ''4h'' \<and> timeframe_an an = ''4h'')"
proof -
  have reg: "registered (world_replying [''Wait.''])"
    by (simp add: world_replying_def)
  have rep: "reply (world_replying [''Wait.'']) (length (calls (world_replying [''Wait.''])))
           (analysisPrompt toString_int a) = Inr [''Wait.'']" for a
    by (simp add: world_replying_def)
  have tf: "timeframe bare_alert = None" "timeframe falsy_alert = Some []"
    "timeframe sample_alert = Some ''4h''" "price bare_alert = 45000"
    by (simp_all add: bare_alert_def falsy_alert_def sample_alert_def)
  note t1 = analyzeAlert_timeframe_price [of toString_int bare_alert "world_replying [''Wait.'']"]
  note t2 = analyzeAlert_timeframe_price [of toString_int falsy_alert "world_replying [''Wait.'']"]
  note t3 = analyzeAlert_timeframe_price [of toString_int sample_alert "world_replying [''Wait.'']"]
  from t1 reg rep [of bare_alert] obtain an1 where
    a1: "fst (analyzeAlert toString_int (Some bare_alert) (world_replying [''Wait.''])) = Inr an1"
    by blast
  from t2 reg rep [of falsy_alert] obtain an2 where
    a2: "fst (analyzeAlert toString_int (Some falsy_alert) (world_replying [''Wait.''])) = Inr an2"
    by blast
  from t3 reg rep [of sample_alert] obtain an3 where
    a3: "fst (analyzeAlert toString_int (Some sample_alert) (world_replying [''Wait.''])) = Inr an3"
    by blast
  from t1 a1 tf have p1: "timeframe_an an1 = ''1h'' \<and> currentPrice an1 = 45000"
    by simp
  from t2 a2 tf have p2: "timeframe_an an2 = ''1h''"
    by simp
  from t3 a3 tf have p3: "timeframe_an an3 = ''4h''"
    by simp
  from a1 a2 a3 p1 p2 p3 tf show ?thesis by blast
qed

section \<open>The validator, the normalizer and the webhook route\<close>

lemma issues_iff:
  "Issue [k] c \<in> set (concat (map (field_issues props) shape)) \<longleftrightarrow>
     (\<exists>t. (k, t) \<in> set shape \<and> zod_check t (map_of props k) = Some c)"
  by (induction shape) (auto simp: field_issues_def split: option.splits)

lemma no_issues_iff:
  "concat (map (field_issues props) shape) = [] \<longleftrightarrow>
     (\<forall>(k, t) \<in> set shape. zod_check t (map_of props k) = None)"
  by (induction shape) (auto simp: field_issues_def split: option.splits)

lemma map_of_field_values:
  "map_of (concat (map (field_value props) shape)) k =
     (if \<exists>t. (k, t) \<in> set shape then map_of props k else None)"
  by (induction shape) (auto simp: field_value_def split: option.splits)

lemma zod_parse_Inl:
  "zod_parse shape body = Inl e \<Longrightarrow> \<exists>issues. e = ZodError issues \<and> issues \<noteq> []"
  by (cases body) (auto simp: zod_parse_def Let_def split: if_splits)

lemma zod_parse_Inr:
  assumes "zod_parse shape body = Inr v"
  shows "\<exists>props. body = JObject props \<and>
           (\<forall>(k, t) \<in> set shape. zod_check t (map_of props k) = None \<and> map_of v k = map_of props k)"
proof -
  from assms obtain props where b: "body = JObject props"
    and n: "concat (map (field_issues props) shape) = []"
    and v: "v = concat (map (field_value props) shape)"
    by (auto simp: zod_parse_def Let_def split: json.splits if_splits)
  from n have "\<forall>(k, t) \<in> set shape. zod_check t (map_of props k) = None"
    by (simp only: no_issues_iff)
  moreover have "\<forall>(k, t) \<in> set shape. map_of v k = map_of props k"
    unfolding v map_of_field_values by force
  ultimately show ?thesis using b by auto
qed

lemma check_number: "zod_check ZodNumber x = None \<Longrightarrow> \<exists>n. x = Some (JNumber n)"
  by (auto split: option.splits json.splits)

lemma check_optional_number:
  "zod_check (ZodOptional ZodNumber) x = None \<Longrightarrow> x = None \<or> (\<exists>n. x = Some (JNumber n))"
  by (auto split: option.splits json.splits)

lemma validated_field:
  assumes "zod_parse shape body = Inr v" and "(k, t) \<in> set shape"
  shows "zod_check t (map_of v k) = None"
proof -
  from zod_parse_Inr [OF assms(1)] obtain props where
    a: "\<forall>(k, t) \<in> set shape. zod_check t (map_of props k) = None \<and> map_of v k = map_of props k"
    by blast
  from a assms(2) have "zod_check t (map_of props k) = None \<and> map_of v k = map_of props k"
    by (rule bspec [where P = "\<lambda>(k, t). zod_check t (map_of props k) = None \<and> map_of v k = map_of props k"
          and x = "(k, t)", simplified])
  then show ?thesis by simp
qed

lemma validated_numbers:
  assumes "zod_parse tradingViewWebhookSchema body = Inr v"
  shows "(\<exists>n. map_of v ''price'' = Some (JNumber n))"
    and "map_of v ''close'' = None \<or> (\<exists>n. map_of v ''close'' = Some (JNumber n))"
    and "map_of v ''timestamp'' = None \<or> (\<exists>n. map_of v ''timestamp'' = Some (JNumber n))"
    and "map_of v ''bar_time'' = None \<or> (\<exists>n. map_of v ''bar_time'' = Some (JNumber n))"
proof -
  have "(''price'', ZodNumber) \<in> set tradingViewWebhookSchema"
    by (simp add: tradingViewWebhookSchema_def)
  from validated_field [OF assms this]
  show "\<exists>n. map_of v ''price'' = Some (JNumber n)" by (rule check_number)
  have "(''close'', ZodOptional ZodNumber) \<in> set tradingViewWebhookSchema"
    by (simp add: tradingViewWebhookSchema_def)
  from validated_field [OF assms this]
  show "map_of v ''close'' = None \<or> (\<exists>n. map_of v ''close'' = Some (JNumber n))"
    by (rule check_optional_number)
  have "(''timestamp'', ZodOptional ZodNumber) \<in> set tradingViewWebhookSchema"
    by (simp add: tradingViewWebhookSchema_def)
  from validated_field [OF assms this]
  show "map_of v ''timestamp'' = None \<or> (\<exists>n. map_of v ''timestamp'' = Some (JNumber n))"
    by (rule check_optional_number)
  have "(''bar_time'', ZodOptional ZodNumber) \<in> set tradingViewWebhookSchema"
    by (simp add: tradingViewWebhookSchema_def)
  from validated_field [OF assms this]
  show "map_of v ''bar_time'' = None \<or> (\<exists>n. map_of v ''bar_time'' = Some (JNumber n))"
    by (rule check_optional_number)
qed

lemma or_js_number:
  "(\<exists>n. x = Some (JNumber n)) \<or> x = None \<Longrightarrow> \<exists>n. y = Some (JNumber n) \<Longrightarrow>
     \<exists>n. or_js x y = Some (JNumber n)"
  by (auto simp: or_js_def truthy_def)

lemma or_js_coalesce: "x = None \<or> truthy x \<Longrightarrow> or_js x y = coalesce x y"
  by (auto simp: or_js_def coalesce_def truthy_def)

lemma alertData_props:
  "getProp (fst (alertData v w)) ''price'' =
     or_js (map_of v ''price'') (or_js (map_of v ''close'') (Some (JNumber 0)))"
  "getProp (fst (alertData v w)) ''strategy'' = or_js (map_of v ''strategy'') (map_of v ''alert_name'')"
  "getProp (fst (alertData v w)) ''timestamp'' =
     or_js (map_of v ''timestamp'')
       (or_js (map_of v ''bar_time'') (Some (JNumber (clock w (ticks w)))))"
  "getProp (fst (alertData v w)) ''volume'' = or_js (map_of v ''volume'') (map_of v ''volume_24h'')"
  by (simp_all add: alertData_def getProp_def Let_def or_js_def Date_now_def split: prod.splits)

lemma alertData_world:
  "snd (alertData v w) =
     (if truthy (map_of v ''timestamp'') \<or> truthy (map_of v ''bar_time'') then w
      else w\<lparr>ticks := Suc (ticks w)\<rparr>)"
  by (simp add: alertData_def Let_def Date_now_def split: prod.splits)

text \<open>
  Claim C5, amended. For every validated body, \<open>alertData\<close> coalesces with \<open>||\<close>:
  \<open>price := price || close || 0\<close>, \<open>strategy := strategy || alert_name\<close>,
  \<open>timestamp := timestamp || bar_time || Date.now()\<close>, \<open>volume := volume || volume_24h\<close>;
  \<open>price\<close> and \<open>timestamp\<close> of the result are always numbers; these are the values of
  the \<open>??\<close> chains whenever none of \<open>price\<close>, \<open>close\<close>, \<open>strategy\<close>, \<open>timestamp\<close>,
  \<open>bar_time\<close>, \<open>volume\<close> is present and falsy; and the only effect is one reading of the
  clock, made when \<open>timestamp\<close> and \<open>bar_time\<close> are both falsy.
\<close>

theorem alertData_coalesces:
  assumes "zod_parse tradingViewWebhookSchema body = Inr v"
  shows "getProp (fst (alertData v w)) ''price'' =
           or_js (map_of v ''price'') (or_js (map_of v ''close'') (Some (JNumber 0))) \<and>
         getProp (fst (alertData v w)) ''strategy'' =
           or_js (map_of v ''strategy'') (map_of v ''alert_name'') \<and>
         getProp (fst (alertData v w)) ''timestamp'' =
           or_js (map_of v ''timestamp'')
             (or_js (map_of v ''bar_time'') (Some (JNumber (clock w (ticks w))))) \<and>
         getProp (fst (alertData v w)) ''volume'' =
           or_js (map_of v ''volume'') (map_of v ''volume_24h'') \<and>
         (\<exists>p. getProp (fst (alertData v w)) ''price'' = Some (JNumber p)) \<and>
         (\<exists>t. getProp (fst (alertData v w)) ''timestamp'' = Some (JNumber t)) \<and>
         ((\<forall>k \<in> {''price'', ''close'', ''strategy'', ''timestamp'', ''bar_time'', ''volume''}.
              map_of v k = None \<or> truthy (map_of v k)) \<longrightarrow>
            getProp (fst (alertData v w)) ''price'' =
              coalesce (map_of v ''price'') (coalesce (map_of v ''close'') (Some (JNumber 0))) \<and>
            getProp (fst (alertData v w)) ''strategy'' =
              coalesce (map_of v ''strategy'') (map_of v ''alert_name'') \<and>
            getProp (fst (alertData v w)) ''timestamp'' =
              coalesce (map_of v ''timestamp'')
                (coalesce (map_of v ''bar_time'') (Some (JNumber (clock w (ticks w))))) \<and>
            getProp (fst (alertData v w)) ''volume'' =
              coalesce (map_of v ''volume'') (map_of v ''volume_24h'')) \<and>
         snd (alertData v w) =
           (if truthy (map_of v ''timestamp'') \<or> truthy (map_of v ''bar_time'') then w
            else w\<lparr>ticks := Suc (ticks w)\<rparr>) \<and>
         calls (snd (alertData v w)) = calls w"
proof -
  note n = validated_numbers [OF assms]
  have p: "\<exists>p. getProp (fst (alertData v w)) ''price'' = Some (JNumber p)"
    unfolding alertData_props using n(1,2) by (intro or_js_number) auto
  have t: "\<exists>t. getProp (fst (alertData v w)) ''timestamp'' = Some (JNumber t)"
    unfolding alertData_props using n(3,4) by (intro or_js_number) auto
  have c: "(\<forall>k \<in> {''price'', ''close'', ''strategy'', ''timestamp'', ''bar_time'', ''volume''}.
              map_of v k = None \<or> truthy (map_of v k)) \<longrightarrow>
            getProp (fst (alertData v w)) ''price'' =
              coalesce (map_of v ''price'') (coalesce (map_of v ''close'') (Some (JNumber 0))) \<and>
            getProp (fst (alertData v w)) ''strategy'' =
              coalesce (map_of v ''strategy'') (map_of v ''alert_name'') \<and>
            getProp (fst (alertData v w)) ''timestamp'' =
              coalesce (map_of v ''timestamp'')
                (coalesce (map_of v ''bar_time'') (Some (JNumber (clock w (ticks w))))) \<and>
            getProp (fst (alertData v w)) ''volume'' =
              coalesce (map_of v ''volume'') (map_of v ''volume_24h'')"
    unfolding alertData_props by (simp add: or_js_coalesce)
  have e: "snd (alertData v w) =
           (if truthy (map_of v ''timestamp'') \<or> truthy (map_of v ''bar_time'') then w
            else w\<lparr>ticks := Suc (ticks w)\<rparr>)"
    by (rule alertData_world)
  have k: "calls (snd (alertData v w)) = calls w"
    by (simp add: alertData_world)
  from p t c e k show ?thesis
    by (simp only: alertData_props simp_thms)
qed

lemma zod_parse_object:
  "zod_parse shape (JObject props) =
     (if concat (map (field_issues props) shape) = []
      then Inr (concat (map (field_value props) shape))
      else Inl (ZodError (concat (map (field_issues props) shape))))"
  by (simp add: zod_parse_def Let_def)

lemma field_issue_present:
  assumes "(k, t) \<in> set shape" and "zod_check t (map_of props k) = Some c"
  shows "Issue [k] c \<in> set (concat (map (field_issues props) shape))"
  using assms issues_iff [of k c props shape] by blast

lemma zod_parse_fails:
  assumes "(k, t) \<in> set shape" and "zod_check t (map_of props k) = Some c"
  shows "zod_parse shape (JObject props) = Inl (ZodError (concat (map (field_issues props) shape)))"
proof -
  from field_issue_present [OF assms] have "concat (map (field_issues props) shape) \<noteq> []"
    by (metis empty_iff list.set(1))
  then show ?thesis by (simp only: zod_parse_object if_False)
qed

lemma check_string_bad: "\<forall>s. x \<noteq> Some (JString s) \<Longrightarrow> zod_check ZodString x = Some invalid_type"
  by (cases x; cases "the x") auto

lemma check_number_bad: "\<forall>n. x \<noteq> Some (JNumber n) \<Longrightarrow> zod_check ZodNumber x = Some invalid_type"
  by (cases x; cases "the x") auto

lemma check_enum_bad:
  "\<forall>a \<in> set values. x \<noteq> Some (JString a) \<Longrightarrow> \<exists>c. zod_check (ZodEnum values) x = Some c"
  by (cases x; cases "the x") auto

lemma schema_required:
  "(''symbol'', ZodString) \<in> set tradingViewWebhookSchema"
  "(''price'', ZodNumber) \<in> set tradingViewWebhookSchema"
  "(''action'', ZodEnum [''buy'', ''sell'', ''alert'']) \<in> set tradingViewWebhookSchema"
  by (simp_all add: tradingViewWebhookSchema_def)




lemma webhook_on_parse_error:
  "zod_parse tradingViewWebhookSchema body = Inl e \<Longrightarrow>
     webhook_tradingview S body w = (on_error e, w)"
  by (simp add: webhook_tradingview_def)

lemma on_error_ZodError:
  "on_error (ZodError issues) =
     \<lparr>status = 400, success = False, message_res = ''Invalid webhook data'',
      logId = None, analysis_res = None, errors = Some issues, error_res = None\<rparr>"
  by (simp add: on_error_def)

lemma required_field_rejected:
  assumes "(\<forall>s. map_of props ''symbol'' \<noteq> Some (JString s)) \<or>
           (\<forall>n. map_of props ''price'' \<noteq> Some (JNumber n)) \<or>
           (\<forall>a \<in> set [''buy'', ''sell'', ''alert'']. map_of props ''action'' \<noteq> Some (JString a))"
  shows "zod_parse tradingViewWebhookSchema (JObject props) =
           Inl (ZodError (concat (map (field_issues props) tradingViewWebhookSchema)))"
  using assms
proof (elim disjE)
  assume "\<forall>s. map_of props ''symbol'' \<noteq> Some (JString s)"
  then have "zod_check ZodString (map_of props ''symbol'') = Some invalid_type"
    by (rule check_string_bad)
  with schema_required(1) show ?thesis by (rule zod_parse_fails)
next
  assume "\<forall>n. map_of props ''price'' \<noteq> Some (JNumber n)"
  then have "zod_check ZodNumber (map_of props ''price'') = Some invalid_type"
    by (rule check_number_bad)
  with schema_required(2) show ?thesis by (rule zod_parse_fails)
next
  assume "\<forall>a \<in> set [''buy'', ''sell'', ''alert'']. map_of props ''action'' \<noteq> Some (JString a)"
  then obtain c where "zod_check (ZodEnum [''buy'', ''sell'', ''alert'']) (map_of props ''action'') = Some c"
    using check_enum_bad by blast
  with schema_required(3) show ?thesis by (rule zod_parse_fails)
qed


text \<open>
  Claim C7. Whenever validation fails the response is 400 and the world is left as it
  was: the agent has received no prompt and the clock has not been read. Validation
  fails in particular for a body object without \<open>symbol\<close>, without \<open>price\<close>, or with an
  \<open>action\<close> outside \<open>buy\<close>, \<open>sell\<close>, \<open>alert\<close>.
\<close>

theorem webhook_invalid_no_agent_call:
  "(\<forall>e. zod_parse tradingViewWebhookSchema body = Inl e \<longrightarrow>
      status (fst (webhook_tradingview S body w)) = 400 \<and>
      snd (webhook_tradingview S body w) = w \<and>
      calls (snd (webhook_tradingview S body w)) = calls w) \<and>
   (\<forall>props. body = JObject props \<and>
      (map_of props ''symbol'' = None \<or> map_of props ''price'' = None \<or>
       (\<forall>a \<in> set [''buy'', ''sell'', ''alert'']. map_of props ''action'' \<noteq> Some (JString a))) \<longrightarrow>
      (\<exists>e. zod_parse tradingViewWebhookSchema body = Inl e))"
proof -
  have "status (fst (webhook_tradingview S body w)) = 400 \<and>
      snd (webhook_tradingview S body w) = w \<and>
      calls (snd (webhook_tradingview S body w)) = calls w"
    if "zod_parse tradingViewWebhookSchema body = Inl e" for e
  proof -
    from zod_parse_Inl [OF that] obtain issues where "e = ZodError issues" by blast
    with webhook_on_parse_error [OF that] show ?thesis
      by (simp add: on_error_ZodError)
  qed
  moreover have "\<exists>e. zod_parse tradingViewWebhookSchema body = Inl e"
    if "body = JObject props" and "map_of props ''symbol'' = None \<or> map_of props ''price'' = None \<or>
       (\<forall>a \<in> set [''buy'', ''sell'', ''alert'']. map_of props ''action'' \<noteq> Some (JString a))"
    for props
  proof -
    from that(2) have "(\<forall>s. map_of props ''symbol'' \<noteq> Some (JString s)) \<or>
           (\<forall>n. map_of props ''price'' \<noteq> Some (JNumber n)) \<or>
           (\<forall>a \<in> set [''buy'', ''sell'', ''alert'']. map_of props ''action'' \<noteq> Some (JString a))"
      by auto
    from required_field_rejected [OF this] that(1) show ?thesis by blast
  qed
  ultimately show ?thesis by blast
qed

lemma sample_body_parse:
  "zod_parse tradingViewWebhookSchema sample_body =
     Inr [(''symbol'', JString ''BTCUSDT''), (''price'', JNumber 45000), (''action'', JString ''buy''),
          (''timeframe'', JString ''1h''), (''exchange'', JString ''binance''),
          (''message'', JString ''RSI below 30, potential buy signal detected'')]"
  by (simp add: zod_parse_def tradingViewWebhookSchema_def sample_body_def field_issues_def
      field_value_def)

lemma zero_price_body_parse:
  "zod_parse tradingViewWebhookSchema zero_price_body =
     Inr [(''symbol'', JString ''BTCUSDT''), (''price'', JNumber 0), (''action'', JString ''buy''),
          (''close'', JNumber 5)]"
  by (simp add: zod_parse_def tradingViewWebhookSchema_def zero_price_body_def field_issues_def
      field_value_def)


text \<open>
  Claim C5, as stated, fails: the body with \<open>price\<close> 0 and \<open>close\<close> 5 is valid, its
  \<open>alertData\<close> has the price 5, and \<open>price ?? close ?? 0\<close> is 0.
\<close>

theorem alertData_nullish_counterexample:
  "zod_parse tradingViewWebhookSchema zero_price_body =
     Inr [(''symbol'', JString ''BTCUSDT''), (''price'', JNumber 0), (''action'', JString ''buy''),
          (''close'', JNumber 5)] \<and>
   getProp (fst (alertData [(''symbol'', JString ''BTCUSDT''), (''price'', JNumber 0),
       (''action'', JString ''buy''), (''close'', JNumber 5)] sample_world)) ''price''
     = Some (JNumber 5) \<and>
   coalesce (Some (JNumber 0)) (coalesce (Some (JNumber 5)) (Some (JNumber 0))) = Some (JNumber 0) \<and>
   getProp (fst (alertData [(''symbol'', JString ''BTCUSDT''), (''price'', JNumber 0),
       (''action'', JString ''buy''), (''close'', JNumber 5)] sample_world)) ''price''
     \<noteq> coalesce (map_of [(''symbol'', JString ''BTCUSDT''), (''price'', JNumber 0),
            (''action'', JString ''buy''), (''close'', JNumber 5)] ''price'')
          (coalesce (map_of [(''symbol'', JString ''BTCUSDT''), (''price'', JNumber 0),
            (''action'', JString ''buy''), (''close'', JNumber 5)] ''close'') (Some (JNumber 0)))"
  by (simp add: zero_price_body_parse alertData_props or_js_def truthy_def coalesce_def)

text \<open>
  The alert of \<open>test-webhook.js\<close>: its price, and the clock reading as its timestamp.
\<close>

theorem alertData_coalesces_witness:
  "zod_parse tradingViewWebhookSchema sample_body =
     Inr [(''symbol'', JString ''BTCUSDT''), (''price'', JNumber 45000), (''action'', JString ''buy''),
          (''timeframe'', JString ''1h''), (''exchange'', JString ''binance''),
          (''message'', JString ''RSI below 30, potential buy signal detected'')] \<and>
   getProp (fst (alertData [(''symbol'', JString ''BTCUSDT''), (''price'', JNumber 45000),
          (''action'', JString ''buy''), (''timeframe'', JString ''1h''),
          (''exchange'', JString ''binance''),
          (''message'', JString ''RSI below 30, potential buy signal detected'')] sample_world))
      ''price'' = Some (JNumber 45000) \<and>
   getProp (fst (alertData [(''symbol'', JString ''BTCUSDT''), (''price'', JNumber 45000),
          (''action'', JString ''buy''), (''timeframe'', JString ''1h''),
          (''exchange'', JString ''binance''),
          (''message'', JString ''RSI below 30, potential buy signal detected'')] sample_world))
      ''timestamp'' = Some (JNumber 1700000000000)"
proof -
  let ?v = "[(''symbol'', JString ''BTCUSDT''), (''price'', JNumber 45000),
          (''action'', JString ''buy''), (''timeframe'', JString ''1h''),
          (''exchange'', JString ''binance''),
          (''message'', JString ''RSI below 30, potential buy signal detected'')]"
  note c = alertData_coalesces [OF sample_body_parse, of sample_world]
  have t: "\<forall>k \<in> {''price'', ''close'', ''strategy'', ''timestamp'', ''bar_time'', ''volume''}.
             map_of ?v k = None \<or> truthy (map_of ?v k)"
    by (simp add: truthy_def)
  from c t have p: "getProp (fst (alertData ?v sample_world)) ''price'' =
      coalesce (map_of ?v ''price'') (coalesce (map_of ?v ''close'') (Some (JNumber 0)))"
    and ts: "getProp (fst (alertData ?v sample_world)) ''timestamp'' =
      coalesce (map_of ?v ''timestamp'')
        (coalesce (map_of ?v ''bar_time'')
           (Some (JNumber (clock sample_world (ticks sample_world)))))"
    by blast+
  have p': "coalesce (map_of ?v ''price'') (coalesce (map_of ?v ''close'') (Some (JNumber 0)))
      = Some (JNumber 45000)"
    by (simp add: coalesce_def)
  have ts': "coalesce (map_of ?v ''timestamp'')
        (coalesce (map_of ?v ''bar_time'')
           (Some (JNumber (clock sample_world (ticks sample_world)))))
      = Some (JNumber 1700000000000)"
    by (simp add: coalesce_def sample_world_def)
  from p p' ts ts' sample_body_parse show ?thesis by simp
qed



text \<open>
  The body with \<open>symbol\<close> only, on the sample world.
\<close>

theorem webhook_invalid_no_agent_call_witness:
  "malformed_body = JObject [(''symbol'', JString ''BTCUSDT'')] \<and>
   map_of [(''symbol'', JString ''BTCUSDT'')] ''price'' = None \<and>
   (\<exists>e. zod_parse tradingViewWebhookSchema malformed_body = Inl e) \<and>
   status (fst (webhook_tradingview toString_int malformed_body sample_world)) = 400 \<and>
   snd (webhook_tradingview toString_int malformed_body sample_world) = sample_world \<and>
   calls (snd (webhook_tradingview toString_int malformed_body sample_world)) = []"
proof -
  let ?props = "[(''symbol'', JString ''BTCUSDT'')]"
  have b: "malformed_body = JObject ?props"
    by (simp add: malformed_body_def)
  have np: "map_of ?props ''price'' = None"
    by simp
  have nc: "calls sample_world = []"
    by (simp add: sample_world_def)
  note t = webhook_invalid_no_agent_call [of malformed_body toString_int sample_world]
  from t b np obtain e where e: "zod_parse tradingViewWebhookSchema malformed_body = Inl e"
    by blast
  with t have "status (fst (webhook_tradingview toString_int malformed_body sample_world)) = 400 \<and>
      snd (webhook_tradingview toString_int malformed_body sample_world) = sample_world \<and>
      calls (snd (webhook_tradingview toString_int malformed_body sample_world)) = calls sample_world"
    by blast
  with b np e nc show ?thesis by (simp only:) blast
qed

end
